theory Spec2Isabelle
  imports Main
begin

section \<open>Exceptions, provider calls and provider responses\<close>

text \<open>
  The repository is a client of two boto3 clients (\<open>ec2\<close> and \<open>rds\<close>) and of a
  PostgreSQL connection. Every effect of the code is a call to one of them or a line
  printed. The provider is not part of the repository: it is a parameter of the model, a
  function from the calls answered so far and the call being made to the answer, which is
  the most general deterministic provider. An answer is either an exception raised by the
  call or a response value.

  Exceptions are values. \<open>DBSubnetGroupNotFoundFault\<close> and \<open>DBInstanceNotFoundFault\<close>
  are the two classes of \<open>rds_client.exceptions\<close> that the code names; both are
  subclasses of botocore's \<open>ClientError\<close>. \<open>PyException\<close> stands for every other
  subclass of \<open>Exception\<close>.
\<close>

datatype exn =
    DBSubnetGroupNotFoundFault
  | DBInstanceNotFoundFault
  | ClientError string
  | KeyError string
  | IndexError
  | TypeError
  | OperationalError string
  | Psycopg2Error string
  | PyException string


text \<open>\<open>psycopg2.OperationalError\<close> is a subclass of \<open>psycopg2.Error\<close>.\<close>

fun is_psycopg2_Error :: "exn \<Rightarrow> bool" where
  "is_psycopg2_Error (OperationalError m) = True"
| "is_psycopg2_Error (Psycopg2Error m) = True"
| "is_psycopg2_Error e = False"

text \<open>The Python values the code keeps in its dictionaries.\<close>

datatype pyval = PNone | PBool bool | PStr string | PStrList "string list"

type_synonym pydict = "(string \<times> pyval) list"

type_synonym tags = "(string \<times> string) list"

datatype route_target = GatewayId string | NatGatewayId string

text \<open>The calls on \<open>self.ec2_client\<close>, with the keyword arguments the code passes.\<close>

datatype ec2_call =
    CreateVpc string
  | Wait string string
  | CreateTags string tags
  | ModifyVpcAttribute string string bool
  | DescribeVpcs "(string \<times> string) list"
  | DescribeAvailabilityZones
  | CreateSubnet string string string
  | CreateInternetGateway
  | AttachInternetGateway string string
  | CreateRouteTable string
  | AssociateRouteTable string string
  | CreateRoute string string route_target
  | AllocateAddress
  | CreateNatGateway string string
  | CreateSecurityGroup string string string
  | AuthorizeSecurityGroupIngress string
  | DescribeNatGateways string
  | DeleteNatGateway string
  | ReleaseAddress string
  | DescribeRouteTables string
  | DisassociateRouteTable string
  | DeleteRouteTable string
  | DescribeInternetGateways string
  | DetachInternetGateway string string
  | DeleteInternetGateway string
  | DescribeSubnets string
  | DeleteSubnet string
  | DescribeSecurityGroups "(string \<times> string) list"
  | DeleteSecurityGroup string
  | DeleteVpc string

text \<open>The calls on \<open>self.rds_client\<close>.\<close>

record create_db_instance_args =
  DBInstanceIdentifier :: string
  DBSubnetGroupName :: pyval
  DBInstanceClass :: string
  Engine :: string
  EngineVersion :: string
  MasterUsername :: string
  MasterUserPassword :: string
  AllocatedStorage :: int
  VpcSecurityGroupIds :: "pyval list"
  PubliclyAccessible :: bool
  BackupRetentionPeriod :: int

datatype rds_call =
    DescribeDBSubnetGroups string
  | CreateDBSubnetGroup string string "string list"
  | AddTagsToResource string tags
  | DeleteDBSubnetGroup string
  | DescribeDBInstances string
  | CreateDBInstance create_db_instance_args
  | DeleteDBInstance string bool
  | WaitDBInstanceDeleted string int int

text \<open>
  The SQL texts the code sends. The column definitions of the nine tables and the values
  of the sample rows are fixed texts of the source and are named here by their table;
  \<open>CustomTableSchema name schema\<close> is the text \<open>create_custom_table\<close> builds from
  its two arguments.
\<close>

datatype sql =
    SelectVersion
  | CreateTableIfNotExists string
  | CreateIndexIfNotExists string string string
  | InsertInto string nat
  | CustomTableSchema string string
  | SqlText string

text \<open>
  The calls on psycopg2 and on a connection, the call on the Secrets Manager client, the
  reads of \<open>os.environ\<close>, and the construction of the boto3 clients in
  \<open>RDSOperations.__init__\<close>.
\<close>

datatype pg_call =
    Connect string int string string string
  | Execute sql
  | Fetchone
  | Fetchall
  | Commit
  | Rollback
  | Close

datatype os_call =
    GetSecretValue string
  | EnvironGet string
  | Boto3Clients

datatype call = EC2 ec2_call | RDS rds_call | PG pg_call | OS os_call

text \<open>
  The response shapes. A key the code reads by subscript is a field of the shape; a key
  the code tests with \<open>in\<close> or reads with \<open>.get\<close> is optional.
\<close>

record nat_gateway_address =
  AllocationId :: "string option"

record nat_gateway =
  NatGatewayId_of :: string
  State :: string
  NatGatewayAddresses :: "nat_gateway_address list option"

record association =
  Main :: "bool option"
  SubnetId :: "string option"
  RouteTableAssociationId :: string

record route_table =
  RouteTableId :: string
  Associations :: "association list option"

record security_group =
  GroupId_of :: string
  GroupName :: string

record vpc =
  VpcId :: string
  IsDefault :: "bool option"

record db_instance =
  DBInstanceStatus :: string
  Endpoint :: "(string \<times> int) option"
  DBName :: "string option"

text \<open>
  A value of a fetched row: \<open>DBOther\<close> stands for the Python objects psycopg2 builds
  that \<open>json.dumps\<close> cannot encode (a \<open>datetime\<close> for a timestamp column, a
  \<open>Decimal\<close> for a decimal one).
\<close>

datatype dbval = DBNull | DBInt int | DBText string | DBBool bool | DBOther string

datatype response =
    Raise exn
  | Done
  | Vpc string
  | Vpcs "vpc list"
  | AvailabilityZones "string list"
  | Subnet string
  | Subnets "string list"
  | InternetGateway string
  | InternetGateways "string list"
  | RouteTable string
  | RouteTables "route_table list"
  | Allocation string
  | NatGateway string
  | NatGateways "nat_gateway list"
  | GroupId string
  | SecurityGroups "security_group list"
  | DBSubnetGroups "string list"
  | DBSubnetGroup string string
  | DBInstances "db_instance list"
  | Secret string string
  | Environ "string option"
  | Row "dbval list option"
  | Rows "dbval list list"

type_synonym event = "call \<times> response"

type_synonym provider = "event list \<Rightarrow> call \<Rightarrow> response"

section \<open>Programs: calls, printed lines, exceptions\<close>

text \<open>
  A printed line of an \<open>except\<close> handler is its fixed prefix and the exception
  formatted into it. The progress lines (\<open>print\<close> outside a handler) carry no data
  any claim is about and are left out.

  A program takes the events so far and gives its result (an exception raised, or a
  value), the events it added and the lines it printed.
\<close>

datatype line = ErrorLine string exn

type_synonym 'a prog = "event list \<Rightarrow> (exn + 'a) \<times> event list \<times> line list"

definition ret :: "'a \<Rightarrow> 'a prog" where
  "ret x = (\<lambda>h. (Inr x, [], []))"

definition raise :: "exn \<Rightarrow> 'a prog" where
  "raise e = (\<lambda>h. (Inl e, [], []))"

definition print :: "line \<Rightarrow> unit prog" where
  "print l = (\<lambda>h. (Inr (), [], [l]))"

definition bnd :: "'a prog \<Rightarrow> ('a \<Rightarrow> 'b prog) \<Rightarrow> 'b prog" where
  "bnd m f = (\<lambda>h. case m h of
       (Inl e, t, p) \<Rightarrow> (Inl e, t, p)
     | (Inr x, t, p) \<Rightarrow> (case f x (h @ t) of (r, t', p') \<Rightarrow> (r, t @ t', p @ p')))"

definition catch :: "'a prog \<Rightarrow> (exn \<Rightarrow> 'a prog) \<Rightarrow> 'a prog" where
  "catch m handler = (\<lambda>h. case m h of
       (Inl e, t, p) \<Rightarrow> (case handler e (h @ t) of (r, t', p') \<Rightarrow> (r, t @ t', p @ p'))
     | (Inr x, t, p) \<Rightarrow> (Inr x, t, p))"

definition call :: "provider \<Rightarrow> call \<Rightarrow> response prog" where
  "call P c = (\<lambda>h. case P h c of
       Raise e \<Rightarrow> (Inl e, [(c, Raise e)], [])
     | r \<Rightarrow> (Inr r, [(c, r)], []))"

text \<open>\<open>try: m except Exception as e: print(f"{prefix}{e}"); raise\<close>\<close>

definition log_reraise :: "string \<Rightarrow> 'a prog \<Rightarrow> 'a prog" where
  "log_reraise prefix m = catch m (\<lambda>e. bnd (print (ErrorLine prefix e)) (\<lambda>_. raise e))"

text \<open>\<open>try: m except Exception as e: print(f"{prefix}{e}")\<close>\<close>

definition log_swallow :: "string \<Rightarrow> unit prog \<Rightarrow> unit prog" where
  "log_swallow prefix m = catch m (\<lambda>e. print (ErrorLine prefix e))"

primrec for_each :: "'a list \<Rightarrow> ('a \<Rightarrow> unit prog) \<Rightarrow> unit prog" where
  "for_each [] body = ret ()"
| "for_each (x # xs) body = bnd (body x) (\<lambda>_. for_each xs body)"

definition result :: "(exn + 'a) \<times> event list \<times> line list \<Rightarrow> exn + 'a" where
  "result r = fst r"

definition events :: "(exn + 'a) \<times> event list \<times> line list \<Rightarrow> event list" where
  "events r = fst (snd r)"

definition calls :: "(exn + 'a) \<times> event list \<times> line list \<Rightarrow> call list" where
  "calls r = map fst (events r)"

definition printed :: "(exn + 'a) \<times> event list \<times> line list \<Rightarrow> line list" where
  "printed r = snd (snd r)"

definition seq :: "'a prog \<Rightarrow> 'b prog \<Rightarrow> 'b prog" where
  "seq m k = bnd m (\<lambda>_. k)"

text \<open>\<open>[f(x) for x in xs]\<close> and the loops that append one result per element.\<close>

primrec map_prog :: "'a list \<Rightarrow> ('a \<Rightarrow> 'b prog) \<Rightarrow> 'b list prog" where
  "map_prog [] body = ret []"
| "map_prog (x # xs) body = bnd (body x) (\<lambda>y. bnd (map_prog xs body) (\<lambda>ys. ret (y # ys)))"

text \<open>\<open>d[key]\<close> on a dictionary.\<close>

definition getitem :: "pydict \<Rightarrow> string \<Rightarrow> pyval prog" where
  "getitem d key = (case map_of d key of Some v \<Rightarrow> ret v | None \<Rightarrow> raise (KeyError key))"

text \<open>The decimal text of a number, as an f-string formats it.\<close>

fun str_nat :: "nat \<Rightarrow> string" where
  "str_nat n = (if n < 10 then [char_of (48 + n)] else str_nat (n div 10) @ [char_of (48 + n mod 10)])"

text \<open>The truth value of an optional string argument: \<open>None\<close> and \<open>""\<close> are false.\<close>

fun truthy :: "string option \<Rightarrow> bool" where
  "truthy None = False"
| "truthy (Some s) = (s \<noteq> [])"

section \<open>\<open>vpc/custom_vpc.py\<close>: class \<open>VPCInstanceCreator\<close>\<close>

definition create_vpc :: "provider \<Rightarrow> string \<Rightarrow> string \<Rightarrow> string prog" where
  "create_vpc P cidr_block instance_identifier =
     log_reraise ''Error creating VPC: ''
       (bnd (call P (EC2 (CreateVpc cidr_block))) (\<lambda>response.
        bnd (case response of Vpc i \<Rightarrow> ret i | _ \<Rightarrow> raise (KeyError ''Vpc'')) (\<lambda>vpc_id.
        seq (call P (EC2 (Wait ''vpc_available'' vpc_id)))
       (seq (call P (EC2 (CreateTags vpc_id
               [(''Name'', instance_identifier @ ''-vpc''),
                (''CreatedBy'', ''VPCInstanceCreator''),
                (''Project'', instance_identifier)])))
       (seq (call P (EC2 (ModifyVpcAttribute vpc_id ''EnableDnsSupport'' True)))
       (seq (call P (EC2 (ModifyVpcAttribute vpc_id ''EnableDnsHostnames'' True)))
            (ret vpc_id)))))))"

definition get_availability_zones :: "provider \<Rightarrow> string list prog" where
  "get_availability_zones P =
     log_reraise ''Error getting availability zones: ''
       (bnd (call P (EC2 DescribeAvailabilityZones)) (\<lambda>response.
          case response of
            AvailabilityZones az_names \<Rightarrow> ret (take 2 az_names)
          | _ \<Rightarrow> raise (KeyError ''AvailabilityZones'')))"

definition create_subnet :: "provider \<Rightarrow> string \<Rightarrow> string \<Rightarrow> string \<Rightarrow> string prog" where
  "create_subnet P vpc_id cidr_block availability_zone =
     log_reraise ''Error creating subnet: ''
       (bnd (call P (EC2 (CreateSubnet vpc_id cidr_block availability_zone))) (\<lambda>response.
        bnd (case response of Subnet i \<Rightarrow> ret i | _ \<Rightarrow> raise (KeyError ''Subnet'')) (\<lambda>subnet_id.
        seq (call P (EC2 (Wait ''subnet_available'' subnet_id)))
       (seq (call P (EC2 (CreateTags subnet_id
               [(''Name'', ''subnet-'' @ availability_zone),
                (''CreatedBy'', ''VPCInstanceCreator'')])))
            (ret subnet_id)))))"

definition create_internet_gateway :: "provider \<Rightarrow> string \<Rightarrow> string \<Rightarrow> string prog" where
  "create_internet_gateway P vpc_id instance_identifier =
     log_reraise ''Error creating internet gateway: ''
       (bnd (call P (EC2 CreateInternetGateway)) (\<lambda>response.
        bnd (case response of InternetGateway i \<Rightarrow> ret i
             | _ \<Rightarrow> raise (KeyError ''InternetGateway'')) (\<lambda>igw_id.
        seq (call P (EC2 (CreateTags igw_id
               [(''Name'', instance_identifier @ ''-igw''),
                (''CreatedBy'', ''VPCInstanceCreator''),
                (''Project'', instance_identifier)])))
       (seq (call P (EC2 (AttachInternetGateway igw_id vpc_id)))
            (ret igw_id)))))"

definition create_route_table ::
  "provider \<Rightarrow> string \<Rightarrow> string \<Rightarrow> string \<Rightarrow> bool \<Rightarrow> string prog" where
  "create_route_table P vpc_id subnet_id instance_identifier is_public =
     log_reraise ''Error creating route table: ''
       (bnd (call P (EC2 (CreateRouteTable vpc_id))) (\<lambda>response.
        bnd (case response of RouteTable i \<Rightarrow> ret i
             | _ \<Rightarrow> raise (KeyError ''RouteTable'')) (\<lambda>route_table_id.
        let table_type = (if is_public then ''public'' else ''private'') in
        seq (call P (EC2 (CreateTags route_table_id
               [(''Name'', instance_identifier @ ''-'' @ table_type @ ''-rt''),
                (''CreatedBy'', ''VPCInstanceCreator''),
                (''Project'', instance_identifier),
                (''Type'', table_type)])))
       (seq (call P (EC2 (AssociateRouteTable route_table_id subnet_id)))
            (ret route_table_id)))))"

definition create_route ::
  "provider \<Rightarrow> string \<Rightarrow> string \<Rightarrow> string option \<Rightarrow> string option \<Rightarrow> unit prog" where
  "create_route P route_table_id destination_cidr gateway_id nat_gateway_id =
     log_reraise ''Error creating route: ''
       (if truthy gateway_id then
          seq (call P (EC2 (CreateRoute route_table_id destination_cidr
                 (GatewayId (the gateway_id))))) (ret ())
        else if truthy nat_gateway_id then
          seq (call P (EC2 (CreateRoute route_table_id destination_cidr
                 (NatGatewayId (the nat_gateway_id))))) (ret ())
        else ret ())"

definition create_nat_gateway :: "provider \<Rightarrow> string \<Rightarrow> string \<Rightarrow> string prog" where
  "create_nat_gateway P public_subnet_id instance_identifier =
     log_reraise ''Error creating NAT Gateway: ''
       (bnd (call P (EC2 AllocateAddress)) (\<lambda>eip_response.
        bnd (case eip_response of Allocation i \<Rightarrow> ret i
             | _ \<Rightarrow> raise (KeyError ''AllocationId'')) (\<lambda>allocation_id.
        seq (call P (EC2 (CreateTags allocation_id
               [(''Name'', instance_identifier @ ''-nat-eip''),
                (''CreatedBy'', ''VPCInstanceCreator''),
                (''Project'', instance_identifier)])))
       (bnd (call P (EC2 (CreateNatGateway public_subnet_id allocation_id))) (\<lambda>response.
        bnd (case response of NatGateway i \<Rightarrow> ret i
             | _ \<Rightarrow> raise (KeyError ''NatGateway'')) (\<lambda>nat_gateway_id.
        seq (call P (EC2 (Wait ''nat_gateway_available'' nat_gateway_id)))
       (seq (call P (EC2 (CreateTags nat_gateway_id
               [(''Name'', instance_identifier @ ''-nat-gateway''),
                (''CreatedBy'', ''VPCInstanceCreator''),
                (''Project'', instance_identifier)])))
            (ret nat_gateway_id))))))))"

definition create_rds_postgres_security_group ::
  "provider \<Rightarrow> string \<Rightarrow> string \<Rightarrow> string prog" where
  "create_rds_postgres_security_group P vpc_id instance_identifier =
     log_reraise ''Error creating security group: ''
       (bnd (call P (EC2 (CreateSecurityGroup (instance_identifier @ ''-sg'')
               ''Security group for instance'' vpc_id))) (\<lambda>response.
        bnd (case response of GroupId i \<Rightarrow> ret i
             | _ \<Rightarrow> raise (KeyError ''GroupId'')) (\<lambda>security_group_id.
        seq (call P (EC2 (AuthorizeSecurityGroupIngress security_group_id)))
            (ret security_group_id))))"

text \<open>
  In \<open>create_rds_subnet_group\<close> the inner \<open>try\<close> returns the existing group's name;
  only \<open>DBSubnetGroupNotFoundFault\<close> is handled there, and the group is then created.
\<close>

definition create_rds_subnet_group ::
  "provider \<Rightarrow> string \<Rightarrow> string list \<Rightarrow> string prog" where
  "create_rds_subnet_group P subnet_group_name subnet_ids =
     log_reraise ''Error creating RDS subnet group: ''
       (bnd (catch
               (bnd (call P (RDS (DescribeDBSubnetGroups subnet_group_name))) (\<lambda>response.
                  case response of
                    DBSubnetGroups (g # _) \<Rightarrow> ret (Some g)
                  | DBSubnetGroups [] \<Rightarrow> raise IndexError
                  | _ \<Rightarrow> raise (KeyError ''DBSubnetGroups'')))
               (\<lambda>e. if e = DBSubnetGroupNotFoundFault then ret None else raise e))
          (\<lambda>existing. case existing of
             Some g \<Rightarrow> ret g
           | None \<Rightarrow>
               bnd (call P (RDS (CreateDBSubnetGroup subnet_group_name
                      ''Subnet group for RDS'' subnet_ids))) (\<lambda>response.
                 case response of
                   DBSubnetGroup name arn \<Rightarrow>
                     seq (call P (RDS (AddTagsToResource arn
                            [(''Name'', subnet_group_name),
                             (''CreatedBy'', ''VPCInstanceCreator'')])))
                         (ret name)
                 | _ \<Rightarrow> raise (KeyError ''DBSubnetGroup''))))"

text \<open>
  \<open>cleanup_specific_vpc\<close>: six steps inside one \<open>try\<close> whose handler prints and
  does not raise. Each loop body has its own \<open>try\<close> of the same kind.
\<close>

definition allocation_ids_of :: "nat_gateway \<Rightarrow> string list" where
  "allocation_ids_of nat_gw =
     List.map_filter AllocationId
       (case NatGatewayAddresses nat_gw of None \<Rightarrow> [] | Some addresses \<Rightarrow> addresses)"

definition release_addresses :: "provider \<Rightarrow> string list \<Rightarrow> unit prog" where
  "release_addresses P allocation_ids =
     for_each allocation_ids (\<lambda>allocation_id.
       log_swallow (''Error releasing Elastic IP '' @ allocation_id @ '': '')
         (seq (call P (EC2 (ReleaseAddress allocation_id))) (ret ())))"

definition cleanup_nat_gateway :: "provider \<Rightarrow> nat_gateway \<Rightarrow> unit prog" where
  "cleanup_nat_gateway P nat_gw =
     (if State nat_gw \<notin> set [''deleted'', ''deleting''] then
        let nat_gw_id = NatGatewayId_of nat_gw in
        log_swallow (''Error deleting NAT Gateway '' @ nat_gw_id @ '': '')
          (let allocation_ids = allocation_ids_of nat_gw in
           seq (call P (EC2 (DeleteNatGateway nat_gw_id)))
          (seq (call P (EC2 (Wait ''nat_gateway_deleted'' nat_gw_id)))
               (release_addresses P allocation_ids)))
      else ret ())"

definition cleanup_nat_gateways :: "provider \<Rightarrow> string \<Rightarrow> unit prog" where
  "cleanup_nat_gateways P vpc_id =
     bnd (call P (EC2 (DescribeNatGateways vpc_id))) (\<lambda>nat_gateways_response.
     bnd (case nat_gateways_response of NatGateways gs \<Rightarrow> ret gs
          | _ \<Rightarrow> raise (KeyError ''NatGateways'')) (\<lambda>gs.
     for_each gs (cleanup_nat_gateway P)))"

definition associations_of :: "route_table \<Rightarrow> association list" where
  "associations_of rt = (case Associations rt of None \<Rightarrow> [] | Some as \<Rightarrow> as)"

definition is_main :: "route_table \<Rightarrow> bool" where
  "is_main rt = list_ex (\<lambda>assoc. Main assoc = Some True) (associations_of rt)"

definition disassociate_subnets :: "provider \<Rightarrow> association list \<Rightarrow> unit prog" where
  "disassociate_subnets P associations =
     for_each associations (\<lambda>association.
       if SubnetId association \<noteq> None then
         let assoc_id = RouteTableAssociationId association in
         log_swallow ''Error disassociating route table: ''
           (seq (call P (EC2 (DisassociateRouteTable assoc_id))) (ret ()))
       else ret ())"

definition cleanup_route_table :: "provider \<Rightarrow> route_table \<Rightarrow> unit prog" where
  "cleanup_route_table P rt =
     (if \<not> is_main rt then
        let rt_id = RouteTableId rt in
        log_swallow (''Error deleting route table '' @ rt_id @ '': '')
          (seq (disassociate_subnets P (associations_of rt))
               (seq (call P (EC2 (DeleteRouteTable rt_id))) (ret ())))
      else ret ())"

definition cleanup_route_tables :: "provider \<Rightarrow> string \<Rightarrow> unit prog" where
  "cleanup_route_tables P vpc_id =
     bnd (call P (EC2 (DescribeRouteTables vpc_id))) (\<lambda>route_tables_response.
     bnd (case route_tables_response of RouteTables rts \<Rightarrow> ret rts
          | _ \<Rightarrow> raise (KeyError ''RouteTables'')) (\<lambda>rts.
     for_each rts (cleanup_route_table P)))"

definition cleanup_internet_gateways :: "provider \<Rightarrow> string \<Rightarrow> unit prog" where
  "cleanup_internet_gateways P vpc_id =
     bnd (call P (EC2 (DescribeInternetGateways vpc_id))) (\<lambda>igw_response.
     bnd (case igw_response of InternetGateways igws \<Rightarrow> ret igws
          | _ \<Rightarrow> raise (KeyError ''InternetGateways'')) (\<lambda>igws.
     for_each igws (\<lambda>igw_id.
       log_swallow (''Error deleting Internet Gateway '' @ igw_id @ '': '')
         (seq (call P (EC2 (DetachInternetGateway igw_id vpc_id)))
         (seq (call P (EC2 (DeleteInternetGateway igw_id))) (ret ()))))))"

definition cleanup_subnets :: "provider \<Rightarrow> string \<Rightarrow> unit prog" where
  "cleanup_subnets P vpc_id =
     bnd (call P (EC2 (DescribeSubnets vpc_id))) (\<lambda>subnets_response.
     bnd (case subnets_response of Subnets ids \<Rightarrow> ret ids
          | _ \<Rightarrow> raise (KeyError ''Subnets'')) (\<lambda>ids.
     for_each ids (\<lambda>subnet_id.
       log_swallow (''Error deleting subnet '' @ subnet_id @ '': '')
         (seq (call P (EC2 (DeleteSubnet subnet_id))) (ret ())))))"

definition cleanup_security_groups :: "provider \<Rightarrow> string \<Rightarrow> unit prog" where
  "cleanup_security_groups P vpc_id =
     bnd (call P (EC2 (DescribeSecurityGroups [(''vpc-id'', vpc_id)]))) (\<lambda>sg_response.
     bnd (case sg_response of SecurityGroups sgs \<Rightarrow> ret sgs
          | _ \<Rightarrow> raise (KeyError ''SecurityGroups'')) (\<lambda>sgs.
     for_each sgs (\<lambda>sg.
       if GroupName sg \<noteq> ''default'' then
         log_swallow (''Error deleting security group '' @ GroupId_of sg @ '': '')
           (seq (call P (EC2 (DeleteSecurityGroup (GroupId_of sg)))) (ret ()))
       else ret ())))"

definition cleanup_specific_vpc :: "provider \<Rightarrow> string \<Rightarrow> unit prog" where
  "cleanup_specific_vpc P vpc_id =
     log_swallow (''Error cleaning up VPC '' @ vpc_id @ '': '')
       (seq (cleanup_nat_gateways P vpc_id)
       (seq (cleanup_route_tables P vpc_id)
       (seq (cleanup_internet_gateways P vpc_id)
       (seq (cleanup_subnets P vpc_id)
       (seq (cleanup_security_groups P vpc_id)
       (seq (call P (EC2 (DeleteVpc vpc_id))) (ret ())))))))"

text \<open>
  \<open>cleanup_existing_infrastructure\<close>: the first \<open>try\<close> handles only
  \<open>DBSubnetGroupNotFoundFault\<close>; the two searches for VPCs print and go on.
\<close>

definition vpcs_of :: "response \<Rightarrow> vpc list prog" where
  "vpcs_of r = (case r of Vpcs vs \<Rightarrow> ret vs | _ \<Rightarrow> raise (KeyError ''Vpcs''))"

definition cleanup_existing_infrastructure :: "provider \<Rightarrow> string \<Rightarrow> unit prog" where
  "cleanup_existing_infrastructure P instance_identifier =
     (let subnet_group_name = instance_identifier @ ''-subnet-group'' in
      seq (catch
             (seq (call P (RDS (DescribeDBSubnetGroups subnet_group_name)))
             (seq (call P (RDS (DeleteDBSubnetGroup subnet_group_name))) (ret ())))
             (\<lambda>e. if e = DBSubnetGroupNotFoundFault then ret () else raise e))
     (seq (log_swallow ''Error during targeted VPC cleanup: ''
             (bnd (call P (EC2 (DescribeVpcs
                     [(''tag:Project'', instance_identifier),
                      (''tag:CreatedBy'', ''VPCInstanceCreator'')]))) (\<lambda>vpcs_response.
              bnd (vpcs_of vpcs_response) (\<lambda>vpcs.
              for_each vpcs (\<lambda>vpc. cleanup_specific_vpc P (VpcId vpc))))))
          (log_swallow ''Error during VPC cleanup: ''
             (bnd (call P (EC2 (DescribeVpcs []))) (\<lambda>response.
              bnd (vpcs_of response) (\<lambda>vpcs.
              for_each vpcs (\<lambda>vpc.
                if IsDefault vpc = Some True then ret ()
                else cleanup_specific_vpc P (VpcId vpc))))))))"

text \<open>
  \<open>create_complete_infrastructure\<close>. The loop over \<open>enumerate(availability_zones)\<close>
  carries the index and the two lists it appends to.
\<close>

fun create_subnets ::
  "provider \<Rightarrow> string \<Rightarrow> string \<Rightarrow> nat \<Rightarrow> string list \<Rightarrow> string list \<Rightarrow> string list
     \<Rightarrow> (string list \<times> string list) prog" where
  "create_subnets P vpc_id db_instance_identifier i [] public_subnet_ids private_subnet_ids =
     ret (public_subnet_ids, private_subnet_ids)"
| "create_subnets P vpc_id db_instance_identifier i (az # azs) public_subnet_ids private_subnet_ids =
     (let public_cidr = ''10.0.'' @ str_nat (i * 2 + 1) @ ''.0/24'' in
      bnd (create_subnet P vpc_id public_cidr az) (\<lambda>public_subnet_id.
      seq (call P (EC2 (CreateTags public_subnet_id
             [(''Name'', db_instance_identifier @ ''-public-subnet-'' @ str_nat (i + 1)),
              (''Type'', ''public''),
              (''Project'', db_instance_identifier)])))
     (let private_cidr = ''10.0.'' @ str_nat (i * 2 + 2) @ ''.0/24'' in
      bnd (create_subnet P vpc_id private_cidr az) (\<lambda>private_subnet_id.
      seq (call P (EC2 (CreateTags private_subnet_id
             [(''Name'', db_instance_identifier @ ''-private-subnet-'' @ str_nat (i + 1)),
              (''Type'', ''private''),
              (''Project'', db_instance_identifier)])))
          (create_subnets P vpc_id db_instance_identifier (i + 1) azs
             (public_subnet_ids @ [public_subnet_id])
             (private_subnet_ids @ [private_subnet_id]))))))"

definition create_complete_infrastructure :: "provider \<Rightarrow> string \<Rightarrow> pydict prog" where
  "create_complete_infrastructure P db_instance_identifier =
     bnd (create_vpc P ''10.0.0.0/16'' db_instance_identifier) (\<lambda>vpc_id.
     bnd (get_availability_zones P) (\<lambda>availability_zones.
     bnd (create_subnets P vpc_id db_instance_identifier 0 availability_zones [] [])
       (\<lambda>(public_subnet_ids, private_subnet_ids).
     bnd (create_internet_gateway P vpc_id db_instance_identifier) (\<lambda>igw_id.
     bnd (map_prog public_subnet_ids (\<lambda>public_subnet_id.
            bnd (create_route_table P vpc_id public_subnet_id db_instance_identifier True)
              (\<lambda>public_rt_id.
            seq (create_route P public_rt_id ''0.0.0.0/0'' (Some igw_id) None)
                (ret public_rt_id)))) (\<lambda>public_route_table_ids.
     bnd (case public_subnet_ids of [] \<Rightarrow> raise IndexError | first # _ \<Rightarrow>
            create_nat_gateway P first db_instance_identifier) (\<lambda>nat_gateway_id.
     bnd (map_prog private_subnet_ids (\<lambda>private_subnet_id.
            bnd (create_route_table P vpc_id private_subnet_id db_instance_identifier False)
              (\<lambda>private_rt_id.
            seq (create_route P private_rt_id ''0.0.0.0/0'' None (Some nat_gateway_id))
                (ret private_rt_id)))) (\<lambda>private_route_table_ids.
     bnd (create_rds_postgres_security_group P vpc_id db_instance_identifier)
       (\<lambda>security_group_id.
     let subnet_group_name = db_instance_identifier @ ''-subnet-group'' in
     bnd (create_rds_subnet_group P subnet_group_name private_subnet_ids)
       (\<lambda>rds_subnet_group.
     ret [(''vpc_id'', PStr vpc_id),
          (''public_subnet_ids'', PStrList public_subnet_ids),
          (''private_subnet_ids'', PStrList private_subnet_ids),
          (''internet_gateway_id'', PStr igw_id),
          (''nat_gateway_id'', PStr nat_gateway_id),
          (''security_group_id'', PStr security_group_id),
          (''rds_subnet_group'', PStr rds_subnet_group)])))))))))"

section \<open>\<open>rds/custom_rds.py\<close>: class \<open>RDSManager\<close>\<close>

definition create_rds_instance ::
  "provider \<Rightarrow> string \<Rightarrow> pyval \<Rightarrow> pyval list \<Rightarrow> response prog" where
  "create_rds_instance P db_instance_identifier db_subnet_group_name vpc_security_group_ids =
     log_reraise ''Error creating RDS instance: ''
       (call P (RDS (CreateDBInstance
          \<lparr>DBInstanceIdentifier = db_instance_identifier,
           DBSubnetGroupName = db_subnet_group_name,
           DBInstanceClass = ''db.t3.micro'',
           Engine = ''postgres'',
           EngineVersion = ''14.18'',
           MasterUsername = ''dbuser'',
           MasterUserPassword = ''YourSecurePassword123!'',
           AllocatedStorage = 20,
           VpcSecurityGroupIds = vpc_security_group_ids,
           PubliclyAccessible = False,
           BackupRetentionPeriod = 0\<rparr>)))"


definition subnet_group_exists_prog :: "provider \<Rightarrow> string \<Rightarrow> bool prog" where
  "subnet_group_exists_prog P subnet_group_name =
     catch (seq (call P (RDS (DescribeDBSubnetGroups subnet_group_name))) (ret True))
       (\<lambda>e. if e = DBSubnetGroupNotFoundFault then ret False else raise e)"

definition get_vpc_infrastructure_info :: "provider \<Rightarrow> string \<Rightarrow> pydict option prog" where
  "get_vpc_infrastructure_info P instance_identifier =
     catch
       (bnd (call P (EC2 (DescribeVpcs
               [(''tag:Project'', instance_identifier),
                (''tag:CreatedBy'', ''VPCInstanceCreator'')]))) (\<lambda>vpcs_response.
        bnd (vpcs_of vpcs_response) (\<lambda>vpcs.
        case vpcs of
          [] \<Rightarrow> ret None
        | v # _ \<Rightarrow>
            (let vpc_id = VpcId v in
             bnd (call P (EC2 (DescribeSubnets vpc_id))) (\<lambda>subnets_response.
             bnd (case subnets_response of Subnets ids \<Rightarrow> ret ids
                  | _ \<Rightarrow> raise (KeyError ''Subnets'')) (\<lambda>subnet_ids.
             bnd (call P (EC2 (DescribeSecurityGroups
                    [(''vpc-id'', vpc_id),
                     (''group-name'', instance_identifier @ ''-sg'')]))) (\<lambda>sg_response.
             bnd (case sg_response of SecurityGroups sgs \<Rightarrow> ret sgs
                  | _ \<Rightarrow> raise (KeyError ''SecurityGroups'')) (\<lambda>sgs.
             let security_group_id =
                   (case sgs of [] \<Rightarrow> PNone | sg # _ \<Rightarrow> PStr (GroupId_of sg));
                 subnet_group_name = instance_identifier @ ''-subnet-group'' in
             bnd (subnet_group_exists_prog P subnet_group_name) (\<lambda>subnet_group_exists.
             ret (Some [(''vpc_id'', PStr vpc_id),
                        (''subnet_ids'', PStrList subnet_ids),
                        (''security_group_id'', security_group_id),
                        (''subnet_group_name'', PStr subnet_group_name),
                        (''subnet_group_exists'', PBool subnet_group_exists)]))))))))))
       (\<lambda>e. seq (print (ErrorLine ''Error getting VPC infrastructure info: '' e)) (ret None))"

fun py_truth :: "pyval \<Rightarrow> bool" where
  "py_truth PNone = False"
| "py_truth (PBool b) = b"
| "py_truth (PStr s) = (s \<noteq> [])"
| "py_truth (PStrList xs) = (xs \<noteq> [])"

text \<open>
  The conversion of the dictionary \<open>create_complete_infrastructure\<close> returns, in the
  order the source reads its keys.
\<close>

definition convert_vpc_info :: "string \<Rightarrow> pydict \<Rightarrow> pydict prog" where
  "convert_vpc_info instance_identifier vpc_info_raw =
     bnd (getitem vpc_info_raw ''vpc_id'') (\<lambda>vpc_id.
     bnd (getitem vpc_info_raw ''public_subnet_ids'') (\<lambda>public_subnet_ids.
     bnd (getitem vpc_info_raw ''private_subnet_ids'') (\<lambda>private_subnet_ids.
     bnd (getitem vpc_info_raw ''igw_id'') (\<lambda>internet_gateway.
     bnd (getitem vpc_info_raw ''nat_gateway_id'') (\<lambda>nat_gateway.
     bnd (getitem vpc_info_raw ''security_group_id'') (\<lambda>security_group_id.
     ret [(''vpc_id'', vpc_id),
          (''public_subnet_ids'', public_subnet_ids),
          (''private_subnet_ids'', private_subnet_ids),
          (''internet_gateway'', internet_gateway),
          (''nat_gateway'', nat_gateway),
          (''security_group_id'', security_group_id),
          (''subnet_group_name'', PStr (instance_identifier @ ''-subnet-group'')),
          (''subnet_group_exists'', PBool True)]))))))"

definition create_complete_rds_setup ::
  "provider \<Rightarrow> string \<Rightarrow> string option \<Rightarrow> (response \<times> pydict) prog" where
  "create_complete_rds_setup P db_instance_identifier instance_identifier_arg =
     (let instance_identifier =
            (case instance_identifier_arg of None \<Rightarrow> db_instance_identifier | Some i \<Rightarrow> i);
          fresh = bnd (create_complete_infrastructure P instance_identifier)
                      (convert_vpc_info instance_identifier) in
      bnd (get_vpc_infrastructure_info P instance_identifier) (\<lambda>found.
      bnd (case found of
             None \<Rightarrow> fresh
           | Some d \<Rightarrow>
               if d = [] then fresh
               else seq (getitem d ''vpc_id'')
                   (seq (getitem d ''subnet_ids'')
                   (seq (getitem d ''security_group_id'')
                   (seq (getitem d ''subnet_group_exists'') (ret d))))) (\<lambda>vpc_info.
      bnd (getitem vpc_info ''subnet_group_exists'') (\<lambda>subnet_group_exists.
      seq (if \<not> py_truth subnet_group_exists then
             bnd (getitem vpc_info ''subnet_group_name'') (\<lambda>name.
             bnd (getitem vpc_info ''subnet_ids'') (\<lambda>ids.
             case (name, ids) of
               (PStr n, PStrList l) \<Rightarrow> seq (create_rds_subnet_group P n l) (ret ())
             | _ \<Rightarrow> raise TypeError))
           else ret ())
     (bnd (getitem vpc_info ''subnet_group_name'') (\<lambda>subnet_group_name.
      bnd (getitem vpc_info ''security_group_id'') (\<lambda>security_group_id.
      bnd (create_rds_instance P db_instance_identifier subnet_group_name [security_group_id])
        (\<lambda>response.
      seq (getitem vpc_info ''vpc_id'')
     (seq (getitem vpc_info ''subnet_group_name'')
     (seq (getitem vpc_info ''security_group_id'')
          (ret (response, vpc_info))))))))))))"

text \<open>
  \<open>cleanup_complete_setup\<close>: \<open>DBInstanceNotFoundFault\<close> and every other exception of
  the deletion are handled; the VPC cleanup follows outside the \<open>try\<close>.
\<close>

definition cleanup_complete_setup :: "provider \<Rightarrow> string \<Rightarrow> string option \<Rightarrow> unit prog" where
  "cleanup_complete_setup P db_instance_identifier instance_identifier_arg =
     (let instance_identifier =
            (case instance_identifier_arg of None \<Rightarrow> db_instance_identifier | Some i \<Rightarrow> i) in
      seq (catch
             (seq (call P (RDS (DescribeDBInstances db_instance_identifier)))
             (seq (call P (RDS (DeleteDBInstance db_instance_identifier True)))
             (seq (call P (RDS (WaitDBInstanceDeleted db_instance_identifier 30 40)))
                  (ret ()))))
             (\<lambda>e. if e = DBInstanceNotFoundFault then ret ()
                  else print (ErrorLine ''Error deleting RDS instance: '' e)))
          (cleanup_existing_infrastructure P instance_identifier))"

section \<open>Predicates of the claims and concrete providers\<close>

text \<open>
  \<open>raised_by_call r e\<close>: in the run \<open>r\<close> some call raised \<open>e\<close>.
  \<open>reraised prefix r e\<close>: the run \<open>r\<close> printed \<open>prefix\<close> with \<open>e\<close> and raised \<open>e\<close>.
  \<open>raised_at r c e\<close>: in the run \<open>r\<close> the call \<open>c\<close> raised \<open>e\<close>.
  \<open>propagates X m\<close>: every exception outside \<open>X\<close> that a call of \<open>m\<close> raises is the
  exception \<open>m\<close> raises. \<open>logged X m\<close>: every such exception is raised by \<open>m\<close> or
  printed by it.
\<close>

definition raised_by_call :: "(exn + 'a) \<times> event list \<times> line list \<Rightarrow> exn \<Rightarrow> bool" where
  "raised_by_call r e = (Raise e \<in> set (map snd (events r)))"

definition reraised ::
  "string \<Rightarrow> (exn + 'a) \<times> event list \<times> line list \<Rightarrow> exn \<Rightarrow> bool" where
  "reraised prefix r e = (result r = Inl e \<and> ErrorLine prefix e \<in> set (printed r))"


definition propagates :: "exn set \<Rightarrow> 'a prog \<Rightarrow> bool" where
  "propagates X m =
     (\<forall>h e. raised_by_call (m h) e \<and> e \<notin> X \<longrightarrow> result (m h) = Inl e)"

definition logged :: "exn set \<Rightarrow> 'a prog \<Rightarrow> bool" where
  "logged X m =
     (\<forall>h e. raised_by_call (m h) e \<and> e \<notin> X \<longrightarrow>
        result (m h) = Inl e \<or> (\<exists>p. ErrorLine p e \<in> set (printed (m h))))"

definition zones3 :: provider where
  "zones3 = (\<lambda>h c. AvailabilityZones [''us-east-1a'', ''us-east-1b'', ''us-east-1c''])"

definition unauthorized :: exn where
  "unauthorized = ClientError ''UnauthorizedOperation''"




text \<open>
  The step of \<open>cleanup_specific_vpc\<close> a call belongs to, by the operation called: 1 for
  the NAT gateways and their Elastic IPs, 2 for the route tables, 3 for the internet
  gateways, 4 for the subnets, 5 for the security groups, 6 for the VPC, 0 for every
  operation the cleanup does not use.
\<close>

definition ec2_step :: "ec2_call \<Rightarrow> nat" where
  "ec2_step c = (case c of
       DescribeNatGateways v \<Rightarrow> 1
     | DeleteNatGateway g \<Rightarrow> 1
     | Wait w g \<Rightarrow> (if w = ''nat_gateway_deleted'' then 1 else 0)
     | ReleaseAddress a \<Rightarrow> 1
     | DescribeRouteTables v \<Rightarrow> 2
     | DisassociateRouteTable a \<Rightarrow> 2
     | DeleteRouteTable r \<Rightarrow> 2
     | DescribeInternetGateways v \<Rightarrow> 3
     | DetachInternetGateway g v \<Rightarrow> 3
     | DeleteInternetGateway g \<Rightarrow> 3
     | DescribeSubnets v \<Rightarrow> 4
     | DeleteSubnet s \<Rightarrow> 4
     | DescribeSecurityGroups f \<Rightarrow> 5
     | DeleteSecurityGroup g \<Rightarrow> 5
     | DeleteVpc v \<Rightarrow> 6
     | _ \<Rightarrow> 0)"

definition step_of :: "call \<Rightarrow> nat" where
  "step_of c = (case c of EC2 x \<Rightarrow> ec2_step x | _ \<Rightarrow> 0)"

definition is_Raise :: "response \<Rightarrow> bool" where
  "is_Raise r = (case r of Raise e \<Rightarrow> True | _ \<Rightarrow> False)"

text \<open>
  \<open>only_calls Q m\<close>: every call of \<open>m\<close> satisfies \<open>Q\<close>. \<open>ordered_from k m\<close>: the calls
  of \<open>m\<close> are in the order of their steps, none of a step before \<open>k\<close>.
\<close>

definition only_calls :: "(call \<Rightarrow> bool) \<Rightarrow> 'a prog \<Rightarrow> bool" where
  "only_calls Q m = (\<forall>h. list_all Q (calls (m h)))"

definition ordered_from :: "nat \<Rightarrow> 'a prog \<Rightarrow> bool" where
  "ordered_from k m =
     (\<forall>h. sorted (map step_of (calls (m h))) \<and> list_all (\<lambda>c. k \<le> step_of c) (calls (m h)))"

text \<open>
  The events one element of a cleanup loop may leave. For a NAT gateway: nothing when it
  is deleted or being deleted; else the deletion, then (only when the deletion did not
  raise) the wait, then (only when the wait did not raise) one release per recorded
  allocation id. For an internet gateway: the detachment, then (only when it did not
  raise) the deletion. The calls for a route table do not depend on the answers: none for
  a main table; else one disassociation per association with a subnet, then the deletion.
\<close>

definition nat_gateway_block :: "nat_gateway \<Rightarrow> event list \<Rightarrow> bool" where
  "nat_gateway_block g b =
     (if State g \<in> set [''deleted'', ''deleting''] then b = []
      else case b of
        [] \<Rightarrow> False
      | (c1, r1) # rest \<Rightarrow>
          c1 = EC2 (DeleteNatGateway (NatGatewayId_of g)) \<and>
          (if is_Raise r1 then rest = []
           else case rest of
             [] \<Rightarrow> False
           | (c2, r2) # releases \<Rightarrow>
               c2 = EC2 (Wait ''nat_gateway_deleted'' (NatGatewayId_of g)) \<and>
               (if is_Raise r2 then releases = []
                else map fst releases =
                       map (\<lambda>a. EC2 (ReleaseAddress a)) (allocation_ids_of g))))"

definition route_table_calls :: "route_table \<Rightarrow> call list" where
  "route_table_calls rt =
     (if is_main rt then []
      else map (\<lambda>a. EC2 (DisassociateRouteTable (RouteTableAssociationId a)))
             (filter (\<lambda>a. SubnetId a \<noteq> None) (associations_of rt))
           @ [EC2 (DeleteRouteTable (RouteTableId rt))])"

definition internet_gateway_block :: "string \<Rightarrow> string \<Rightarrow> event list \<Rightarrow> bool" where
  "internet_gateway_block vpc_id igw_id b =
     (case b of
        [(c1, r1)] \<Rightarrow> c1 = EC2 (DetachInternetGateway igw_id vpc_id) \<and> is_Raise r1
      | [(c1, r1), (c2, r2)] \<Rightarrow>
          c1 = EC2 (DetachInternetGateway igw_id vpc_id) \<and> \<not> is_Raise r1 \<and>
          c2 = EC2 (DeleteInternetGateway igw_id)
      | _ \<Rightarrow> False)"

text \<open>
  \<open>describes_answered P v\<close>: the provider answers each of the five listings of the
  cleanup of \<open>v\<close> with a list, whatever happened before.
\<close>

definition describes_answered :: "provider \<Rightarrow> string \<Rightarrow> bool" where
  "describes_answered P v =
     (\<forall>h. (\<exists>x. P h (EC2 (DescribeNatGateways v)) = NatGateways x)
        \<and> (\<exists>x. P h (EC2 (DescribeRouteTables v)) = RouteTables x)
        \<and> (\<exists>x. P h (EC2 (DescribeInternetGateways v)) = InternetGateways x)
        \<and> (\<exists>x. P h (EC2 (DescribeSubnets v)) = Subnets x)
        \<and> (\<exists>x. P h (EC2 (DescribeSecurityGroups [(''vpc-id'', v)])) = SecurityGroups x))"

text \<open>
  A provider with one VPC: a live NAT gateway with one Elastic IP and a deleted one, the
  main route table and a custom one associated with a subnet, an internet gateway, a
  subnet, the default security group and one more. Every other call succeeds.
\<close>

definition small_vpc_ec2 :: "ec2_call \<Rightarrow> response" where
  "small_vpc_ec2 c = (case c of
       DescribeNatGateways v \<Rightarrow> NatGateways
         [\<lparr>NatGatewayId_of = ''nat-1'', State = ''available'',
           NatGatewayAddresses = Some [\<lparr>AllocationId = Some ''eipalloc-1''\<rparr>]\<rparr>,
          \<lparr>NatGatewayId_of = ''nat-0'', State = ''deleted'', NatGatewayAddresses = None\<rparr>]
     | DescribeRouteTables v \<Rightarrow> RouteTables
         [\<lparr>RouteTableId = ''rtb-0'',
           Associations = Some [\<lparr>Main = Some True, SubnetId = None,
                                 RouteTableAssociationId = ''rtbassoc-0''\<rparr>]\<rparr>,
          \<lparr>RouteTableId = ''rtb-1'',
           Associations = Some [\<lparr>Main = Some False, SubnetId = Some ''subnet-1'',
                                 RouteTableAssociationId = ''rtbassoc-1''\<rparr>]\<rparr>]
     | DescribeInternetGateways v \<Rightarrow> InternetGateways [''igw-1'']
     | DescribeSubnets v \<Rightarrow> Subnets [''subnet-1'']
     | DescribeSecurityGroups f \<Rightarrow> SecurityGroups
         [\<lparr>GroupId_of = ''sg-0'', GroupName = ''default''\<rparr>,
          \<lparr>GroupId_of = ''sg-1'', GroupName = ''dev-sg''\<rparr>]
     | _ \<Rightarrow> Done)"

definition small_vpc :: provider where
  "small_vpc h c = (case c of EC2 x \<Rightarrow> small_vpc_ec2 x | _ \<Rightarrow> Done)"

text \<open>
  \<open>reports_absent P h d i\<close>: from the history \<open>h\<close> on, the provider answers the lookup of
  the database instance \<open>d\<close> and of the subnet group of \<open>i\<close> with their not-found
  faults. \<open>lists_no_vpcs P h i\<close>: from \<open>h\<close> on, both searches for VPCs come back empty.
  \<open>is_rds_delete c\<close>: the call deletes a subnet group or a database instance.
\<close>

definition reports_absent :: "provider \<Rightarrow> event list \<Rightarrow> string \<Rightarrow> string \<Rightarrow> bool" where
  "reports_absent P h d i =
     (\<forall>t. P (h @ t) (RDS (DescribeDBInstances d)) = Raise DBInstanceNotFoundFault
        \<and> P (h @ t) (RDS (DescribeDBSubnetGroups (i @ ''-subnet-group'')))
            = Raise DBSubnetGroupNotFoundFault)"

definition lists_no_vpcs :: "provider \<Rightarrow> event list \<Rightarrow> string \<Rightarrow> bool" where
  "lists_no_vpcs P h i =
     (\<forall>t. P (h @ t) (EC2 (DescribeVpcs [(''tag:Project'', i),
                                        (''tag:CreatedBy'', ''VPCInstanceCreator'')])) = Vpcs []
        \<and> P (h @ t) (EC2 (DescribeVpcs [])) = Vpcs [])"

definition is_rds_delete :: "call \<Rightarrow> bool" where
  "is_rds_delete c = (case c of
       RDS (DeleteDBSubnetGroup n) \<Rightarrow> True
     | RDS (DeleteDBInstance d s) \<Rightarrow> True
     | _ \<Rightarrow> False)"

text \<open>
  A provider with a database instance and a subnet group and no VPC: each is found until
  its deletion has succeeded, and not found afterwards.
\<close>

definition database_only_rds :: "event list \<Rightarrow> rds_call \<Rightarrow> response" where
  "database_only_rds h c = (case c of
       DescribeDBSubnetGroups n \<Rightarrow>
         if (RDS (DeleteDBSubnetGroup n), Done) \<in> set h
         then Raise DBSubnetGroupNotFoundFault else DBSubnetGroups [n]
     | DescribeDBInstances d \<Rightarrow>
         if (RDS (DeleteDBInstance d True), Done) \<in> set h
         then Raise DBInstanceNotFoundFault
         else DBInstances [\<lparr>DBInstanceStatus = ''available'',
                            Endpoint = Some (''db.example'', 5432), DBName = None\<rparr>]
     | _ \<Rightarrow> Done)"

definition database_only :: provider where
  "database_only h c = (case c of
       RDS x \<Rightarrow> database_only_rds h x
     | EC2 (DescribeVpcs f) \<Rightarrow> Vpcs []
     | _ \<Rightarrow> Done)"

text \<open>The two searches for VPCs that end \<open>cleanup_existing_infrastructure\<close>.\<close>

definition vpc_searches :: "provider \<Rightarrow> string \<Rightarrow> unit prog" where
  "vpc_searches P instance_identifier =
     seq (log_swallow ''Error during targeted VPC cleanup: ''
             (bnd (call P (EC2 (DescribeVpcs
                     [(''tag:Project'', instance_identifier),
                      (''tag:CreatedBy'', ''VPCInstanceCreator'')]))) (\<lambda>vpcs_response.
              bnd (vpcs_of vpcs_response) (\<lambda>vpcs.
              for_each vpcs (\<lambda>vpc. cleanup_specific_vpc P (VpcId vpc))))))
          (log_swallow ''Error during VPC cleanup: ''
             (bnd (call P (EC2 (DescribeVpcs []))) (\<lambda>response.
              bnd (vpcs_of response) (\<lambda>vpcs.
              for_each vpcs (\<lambda>vpc.
                if IsDefault vpc = Some True then ret ()
                else cleanup_specific_vpc P (VpcId vpc))))))"

text \<open>The calls that create a database instance, a subnet, a subnet group.\<close>

definition is_create_db_instance :: "call \<Rightarrow> bool" where
  "is_create_db_instance c = (case c of RDS (CreateDBInstance a) \<Rightarrow> True | _ \<Rightarrow> False)"

definition is_create_subnet :: "call \<Rightarrow> bool" where
  "is_create_subnet c = (case c of EC2 (CreateSubnet v b z) \<Rightarrow> True | _ \<Rightarrow> False)"

definition is_create_db_subnet_group :: "call \<Rightarrow> bool" where
  "is_create_db_subnet_group c =
     (case c of RDS (CreateDBSubnetGroup n d ids) \<Rightarrow> True | _ \<Rightarrow> False)"

text \<open>
  A provider for an account with no VPC yet, in a region of three zones, where every
  creation succeeds; a subnet's id is made from its CIDR block. And one for an account
  with no VPC that has reached its limit of VPCs: every call but the searches fails.
\<close>

definition fresh_account_ec2 :: "ec2_call \<Rightarrow> response" where
  "fresh_account_ec2 c = (case c of
       CreateVpc b \<Rightarrow> Vpc ''vpc-1''
     | DescribeVpcs f \<Rightarrow> Vpcs []
     | DescribeAvailabilityZones \<Rightarrow> AvailabilityZones [''az-a'', ''az-b'', ''az-c'']
     | CreateSubnet v b z \<Rightarrow> Subnet (''subnet-'' @ b)
     | CreateInternetGateway \<Rightarrow> InternetGateway ''igw-1''
     | CreateRouteTable v \<Rightarrow> RouteTable ''rtb-1''
     | AllocateAddress \<Rightarrow> Allocation ''eipalloc-1''
     | CreateNatGateway s a \<Rightarrow> NatGateway ''nat-1''
     | CreateSecurityGroup n d v \<Rightarrow> GroupId ''sg-1''
     | _ \<Rightarrow> Done)"

definition fresh_account_rds :: "rds_call \<Rightarrow> response" where
  "fresh_account_rds c = (case c of
       DescribeDBSubnetGroups n \<Rightarrow> Raise DBSubnetGroupNotFoundFault
     | CreateDBSubnetGroup n d ids \<Rightarrow> DBSubnetGroup n ''arn:subgrp''
     | _ \<Rightarrow> Done)"

definition fresh_account :: provider where
  "fresh_account h c = (case c of
       EC2 x \<Rightarrow> fresh_account_ec2 x
     | RDS x \<Rightarrow> fresh_account_rds x
     | _ \<Rightarrow> Done)"

definition vpc_limit_reached :: provider where
  "vpc_limit_reached h c = (case c of
       EC2 (DescribeVpcs f) \<Rightarrow> Vpcs []
     | _ \<Rightarrow> Raise (ClientError ''VpcLimitExceeded''))"

text \<open>
  \<open>returns Q m\<close>: every value \<open>m\<close> returns satisfies \<open>Q\<close>. \<open>two_phases Q R m\<close>: the
  calls of \<open>m\<close> are calls that satisfy \<open>Q\<close> followed by calls that satisfy \<open>R\<close>.
\<close>

definition returns :: "('a \<Rightarrow> bool) \<Rightarrow> 'a prog \<Rightarrow> bool" where
  "returns Q m = (\<forall>h x. result (m h) = Inr x \<longrightarrow> Q x)"

definition two_phases :: "(call \<Rightarrow> bool) \<Rightarrow> (call \<Rightarrow> bool) \<Rightarrow> 'a prog \<Rightarrow> bool" where
  "two_phases Q R m =
     (\<forall>h. \<exists>pre post. calls (m h) = pre @ post \<and> list_all Q pre \<and> list_all R post)"

section \<open>Results, events and printed lines of the combinators\<close>

lemma ret_simps [simp]:
  "result (ret x h) = Inr x" "events (ret x h) = []" "printed (ret x h) = []"
  by (simp_all add: ret_def result_def events_def printed_def)

lemma raise_simps [simp]:
  "result (raise e h) = Inl e" "events (raise e h) = []" "printed (raise e h) = []"
  by (simp_all add: raise_def result_def events_def printed_def)

lemma print_simps [simp]:
  "result (print l h) = Inr ()" "events (print l h) = []" "printed (print l h) = [l]"
  by (simp_all add: print_def result_def events_def printed_def)

lemma calls_events: "calls r = map fst (events r)"
  by (simp add: calls_def)

lemma result_bnd:
  "result (bnd m f h) =
     (case result (m h) of Inl e \<Rightarrow> Inl e | Inr x \<Rightarrow> result (f x (h @ events (m h))))"
  by (simp add: bnd_def result_def events_def split: prod.splits sum.splits)

lemma events_bnd:
  "events (bnd m f h) =
     (case result (m h) of Inl e \<Rightarrow> events (m h)
      | Inr x \<Rightarrow> events (m h) @ events (f x (h @ events (m h))))"
  by (simp add: bnd_def result_def events_def split: prod.splits sum.splits)

lemma printed_bnd:
  "printed (bnd m f h) =
     (case result (m h) of Inl e \<Rightarrow> printed (m h)
      | Inr x \<Rightarrow> printed (m h) @ printed (f x (h @ events (m h))))"
  by (simp add: bnd_def result_def events_def printed_def split: prod.splits sum.splits)

lemma result_catch:
  "result (catch m k h) =
     (case result (m h) of Inl e \<Rightarrow> result (k e (h @ events (m h))) | Inr x \<Rightarrow> Inr x)"
  by (simp add: catch_def result_def events_def split: prod.splits sum.splits)

lemma events_catch:
  "events (catch m k h) =
     (case result (m h) of Inl e \<Rightarrow> events (m h) @ events (k e (h @ events (m h)))
      | Inr x \<Rightarrow> events (m h))"
  by (simp add: catch_def result_def events_def split: prod.splits sum.splits)

lemma printed_catch:
  "printed (catch m k h) =
     (case result (m h) of Inl e \<Rightarrow> printed (m h) @ printed (k e (h @ events (m h)))
      | Inr x \<Rightarrow> printed (m h))"
  by (simp add: catch_def result_def events_def printed_def split: prod.splits sum.splits)

lemma events_call [simp]: "events (call P c h) = [(c, P h c)]"
  by (cases "P h c") (simp_all add: call_def events_def)

lemma printed_call [simp]: "printed (call P c h) = []"
  by (cases "P h c") (simp_all add: call_def printed_def)

lemma result_call_Raise: "P h c = Raise e \<Longrightarrow> result (call P c h) = Inl e"
  by (simp add: call_def result_def)

lemma result_call_ok: "\<forall>e. P h c \<noteq> Raise e \<Longrightarrow> result (call P c h) = Inr (P h c)"
  by (cases "P h c") (simp_all add: call_def result_def)

lemma result_call_cases:
  "result (call P c h) = (case P h c of Raise e \<Rightarrow> Inl e | r \<Rightarrow> Inr r)"
  by (cases "P h c") (simp_all add: call_def result_def)

lemmas prog_simps = result_bnd events_bnd printed_bnd result_catch events_catch printed_catch
  seq_def log_reraise_def log_swallow_def




lemma log_reraise_result: "result (log_reraise p m h) = result (m h)"
  by (simp add: log_reraise_def result_catch result_bnd split: sum.splits)

lemma log_reraise_events: "events (log_reraise p m h) = events (m h)"
  by (simp add: log_reraise_def events_catch events_bnd split: sum.splits)

lemma log_reraise_printed:
  "printed (log_reraise p m h) =
     (case result (m h) of Inl e \<Rightarrow> printed (m h) @ [ErrorLine p e] | Inr x \<Rightarrow> printed (m h))"
  by (simp add: log_reraise_def printed_catch printed_bnd split: sum.splits)

lemma log_swallow_result [simp]: "result (log_swallow p m h) = Inr ()"
  by (simp add: log_swallow_def result_catch split: sum.splits)

lemma log_swallow_events [simp]: "events (log_swallow p m h) = events (m h)"
  by (simp add: log_swallow_def events_catch split: sum.splits)

lemma log_swallow_printed:
  "printed (log_swallow p m h) =
     (case result (m h) of Inl e \<Rightarrow> printed (m h) @ [ErrorLine p e] | Inr x \<Rightarrow> printed (m h))"
  by (simp add: log_swallow_def printed_catch split: sum.splits)

subsection \<open>Exceptions that propagate\<close>

lemma propagates_ret [simp]: "propagates X (ret x)"
  by (simp add: propagates_def raised_by_call_def)

lemma propagates_raise [simp]: "propagates X (raise e)"
  by (simp add: propagates_def raised_by_call_def)

lemma propagates_call [simp]: "propagates X (call P c)"
  by (auto simp: propagates_def raised_by_call_def result_call_Raise)

lemma propagates_bnd:
  assumes m: "propagates X m" and f: "\<And>x. propagates X (f x)"
  shows "propagates X (bnd m f)"
  unfolding propagates_def
proof (intro allI impI, elim conjE)
  fix h e
  assume ev: "raised_by_call (bnd m f h) e" and nx: "e \<notin> X"
  show "result (bnd m f h) = Inl e"
  proof (cases "result (m h)")
    case (Inl e')
    with ev have "raised_by_call (m h) e"
      by (simp add: raised_by_call_def events_bnd)
    with m nx have "result (m h) = Inl e" by (simp add: propagates_def)
    then show ?thesis by (simp add: result_bnd)
  next
    case (Inr x)
    with ev consider "raised_by_call (m h) e" | "raised_by_call (f x (h @ events (m h))) e"
      by (auto simp: raised_by_call_def events_bnd)
    then show ?thesis
    proof cases
      case 1
      with m nx have "result (m h) = Inl e" by (simp add: propagates_def)
      with Inr show ?thesis by simp
    next
      case 2
      with f [of x] nx have "result (f x (h @ events (m h))) = Inl e"
        by (simp add: propagates_def)
      with Inr show ?thesis by (simp add: result_bnd)
    qed
  qed
qed

lemma propagates_seq: "propagates X m \<Longrightarrow> propagates X k \<Longrightarrow> propagates X (seq m k)"
  by (simp add: seq_def propagates_bnd)

lemma propagates_log_reraise: "propagates X m \<Longrightarrow> propagates X (log_reraise p m)"
  by (simp add: propagates_def raised_by_call_def log_reraise_result log_reraise_events)

lemma propagates_if:
  "(b \<Longrightarrow> propagates X m) \<Longrightarrow> (\<not> b \<Longrightarrow> propagates X k) \<Longrightarrow>
     propagates X (if b then m else k)"
  by simp

lemma propagates_catch_filter:
  assumes "propagates X m"
  shows "propagates (insert e0 X) (catch m (\<lambda>x. if x = e0 then ret v else raise x))"
  unfolding propagates_def
proof (intro allI impI, elim conjE)
  fix h e
  assume ev: "raised_by_call (catch m (\<lambda>x. if x = e0 then ret v else raise x) h) e"
    and nx: "e \<notin> insert e0 X"
  from ev have "raised_by_call (m h) e"
    by (auto simp: raised_by_call_def events_catch split: sum.splits if_splits)
  with assms nx have "result (m h) = Inl e" by (simp add: propagates_def)
  with nx show "result (catch m (\<lambda>x. if x = e0 then ret v else raise x) h) = Inl e"
    by (simp add: result_catch)
qed

lemmas propagates_intros = propagates_bnd propagates_seq propagates_log_reraise
  propagates_if propagates_catch_filter propagates_ret propagates_raise propagates_call


subsection \<open>Exceptions that are printed\<close>

lemma logged_propagates: "propagates X m \<Longrightarrow> logged X m"
  by (auto simp: logged_def propagates_def)

lemma logged_ret [simp]: "logged X (ret x)"
  by (simp add: logged_propagates)

lemma logged_raise [simp]: "logged X (raise e)"
  by (simp add: logged_propagates)

lemma logged_call [simp]: "logged X (call P c)"
  by (simp add: logged_propagates)

lemma logged_bnd:
  assumes m: "logged X m" and f: "\<And>x. logged X (f x)"
  shows "logged X (bnd m f)"
  unfolding logged_def
proof (intro allI impI, elim conjE)
  fix h e
  assume ev: "raised_by_call (bnd m f h) e" and nx: "e \<notin> X"
  show "result (bnd m f h) = Inl e \<or> (\<exists>p. ErrorLine p e \<in> set (printed (bnd m f h)))"
  proof (cases "result (m h)")
    case (Inl e')
    with ev have "raised_by_call (m h) e"
      by (simp add: raised_by_call_def events_bnd)
    with m nx have "result (m h) = Inl e \<or> (\<exists>p. ErrorLine p e \<in> set (printed (m h)))"
      by (simp add: logged_def)
    with Inl show ?thesis by (auto simp: result_bnd printed_bnd)
  next
    case (Inr x)
    with ev consider "raised_by_call (m h) e" | "raised_by_call (f x (h @ events (m h))) e"
      by (auto simp: raised_by_call_def events_bnd)
    then show ?thesis
    proof cases
      case 1
      with m nx have "result (m h) = Inl e \<or> (\<exists>p. ErrorLine p e \<in> set (printed (m h)))"
        by (simp add: logged_def)
      with Inr show ?thesis by (auto simp: result_bnd printed_bnd)
    next
      case 2
      with f [of x] nx have "result (f x (h @ events (m h))) = Inl e
          \<or> (\<exists>p. ErrorLine p e \<in> set (printed (f x (h @ events (m h)))))"
        by (simp add: logged_def)
      with Inr show ?thesis by (auto simp: result_bnd printed_bnd)
    qed
  qed
qed

lemma logged_seq: "logged X m \<Longrightarrow> logged X k \<Longrightarrow> logged X (seq m k)"
  by (simp add: seq_def logged_bnd)

lemma logged_log_swallow:
  assumes "logged X m" shows "logged X (log_swallow p m)"
proof -
  have "\<exists>q. ErrorLine q e \<in> set (printed (log_swallow p m h))"
    if ev: "raised_by_call (log_swallow p m h) e" and nx: "e \<notin> X" for h e
  proof -
    from ev have "raised_by_call (m h) e" by (simp add: raised_by_call_def)
    with assms nx have "result (m h) = Inl e \<or> (\<exists>q. ErrorLine q e \<in> set (printed (m h)))"
      by (simp add: logged_def)
    then show ?thesis
      by (auto simp: log_swallow_printed split: sum.splits)
  qed
  then show ?thesis
    unfolding logged_def by blast
qed

lemma logged_for_each: "(\<And>x. logged X (body x)) \<Longrightarrow> logged X (for_each xs body)"
  by (induction xs) (simp_all add: logged_bnd)

lemma logged_if:
  "(b \<Longrightarrow> logged X m) \<Longrightarrow> (\<not> b \<Longrightarrow> logged X k) \<Longrightarrow> logged X (if b then m else k)"
  by simp

lemmas logged_intros = logged_bnd logged_seq logged_log_swallow logged_for_each logged_ret
  logged_raise logged_call logged_if

subsection \<open>The wrappers of \<open>VPCInstanceCreator\<close> and \<open>RDSManager\<close>\<close>









lemma propagates_create_rds_subnet_group_body:
  "propagates {DBSubnetGroupNotFoundFault}
     (bnd (catch
               (bnd (call P (RDS (DescribeDBSubnetGroups subnet_group_name))) (\<lambda>response.
                  case response of
                    DBSubnetGroups (g # _) \<Rightarrow> ret (Some g)
                  | DBSubnetGroups [] \<Rightarrow> raise IndexError
                  | _ \<Rightarrow> raise (KeyError ''DBSubnetGroups'')))
               (\<lambda>e. if e = DBSubnetGroupNotFoundFault then ret None else raise e))
          (\<lambda>existing. case existing of
             Some g \<Rightarrow> ret g
           | None \<Rightarrow>
               bnd (call P (RDS (CreateDBSubnetGroup subnet_group_name
                      ''Subnet group for RDS'' subnet_ids))) (\<lambda>response.
                 case response of
                   DBSubnetGroup name arn \<Rightarrow>
                     seq (call P (RDS (AddTagsToResource arn
                            [(''Name'', subnet_group_name),
                             (''CreatedBy'', ''VPCInstanceCreator'')])))
                         (ret name)
                 | _ \<Rightarrow> raise (KeyError ''DBSubnetGroup''))))"
  by (auto intro!: propagates_intros split: response.splits list.splits option.splits)

lemma create_rds_subnet_group_reraises:
  assumes "raised_by_call (create_rds_subnet_group P n ids h) e
      \<or> result (create_rds_subnet_group P n ids h) = Inl e"
    and "e \<noteq> DBSubnetGroupNotFoundFault"
  shows "reraised ''Error creating RDS subnet group: '' (create_rds_subnet_group P n ids h) e"
proof -
  have "result (create_rds_subnet_group P n ids h) = Inl e"
    using assms propagates_create_rds_subnet_group_body [of P n ids]
    unfolding create_rds_subnet_group_def
    by (auto simp: propagates_def raised_by_call_def log_reraise_result log_reraise_events)
  then show ?thesis
    unfolding create_rds_subnet_group_def
    by (simp add: reraised_def log_reraise_result log_reraise_printed)
qed


lemma logged_cleanup_nat_gateway: "logged X (cleanup_nat_gateway P g)"
  unfolding cleanup_nat_gateway_def release_addresses_def Let_def
  by (intro logged_intros)

lemma logged_cleanup_nat_gateways: "logged X (cleanup_nat_gateways P v)"
  unfolding cleanup_nat_gateways_def
  by (auto intro!: logged_intros logged_cleanup_nat_gateway split: response.splits)

lemma logged_cleanup_route_table: "logged X (cleanup_route_table P rt)"
  unfolding cleanup_route_table_def disassociate_subnets_def Let_def
  by (intro logged_intros)

lemma logged_cleanup_route_tables: "logged X (cleanup_route_tables P v)"
  unfolding cleanup_route_tables_def
  by (auto intro!: logged_intros logged_cleanup_route_table split: response.splits)

lemma logged_cleanup_internet_gateways: "logged X (cleanup_internet_gateways P v)"
  unfolding cleanup_internet_gateways_def
  by (auto intro!: logged_intros split: response.splits)

lemma logged_cleanup_subnets: "logged X (cleanup_subnets P v)"
  unfolding cleanup_subnets_def
  by (auto intro!: logged_intros split: response.splits)

lemma logged_cleanup_security_groups: "logged X (cleanup_security_groups P v)"
  unfolding cleanup_security_groups_def
  by (auto intro!: logged_intros split: response.splits)

lemma logged_cleanup_specific_vpc: "logged X (cleanup_specific_vpc P v)"
  unfolding cleanup_specific_vpc_def
  by (intro logged_intros logged_cleanup_nat_gateways logged_cleanup_route_tables
      logged_cleanup_internet_gateways logged_cleanup_subnets logged_cleanup_security_groups)



lemma logged_catch_filter:
  assumes "propagates X m"
  shows "logged (insert e0 X) (catch m (\<lambda>x. if x = e0 then ret v else raise x))"
  by (rule logged_propagates) (rule propagates_catch_filter [OF assms])

lemma logged_vpcs_of [simp]: "logged X (vpcs_of r)"
  by (cases r) (simp_all add: vpcs_of_def)

lemma logged_cleanup_existing_infrastructure:
  "logged {DBSubnetGroupNotFoundFault} (cleanup_existing_infrastructure P i)"
  unfolding cleanup_existing_infrastructure_def Let_def
  by (intro logged_intros logged_catch_filter propagates_intros logged_vpcs_of
      logged_cleanup_specific_vpc)



subsection \<open>The calls of a program and the steps of the cleanup\<close>

lemma calls_bnd:
  "calls (bnd m f h) =
     (case result (m h) of Inl e \<Rightarrow> calls (m h)
      | Inr x \<Rightarrow> calls (m h) @ calls (f x (h @ events (m h))))"
  by (simp add: calls_def events_bnd split: sum.splits)

lemma calls_catch:
  "calls (catch m k h) =
     (case result (m h) of Inl e \<Rightarrow> calls (m h) @ calls (k e (h @ events (m h)))
      | Inr x \<Rightarrow> calls (m h))"
  by (simp add: calls_def events_catch split: sum.splits)

lemma calls_ret [simp]: "calls (ret x h) = []"
  by (simp add: calls_def)

lemma calls_raise [simp]: "calls (raise e h) = []"
  by (simp add: calls_def)

lemma calls_print [simp]: "calls (print l h) = []"
  by (simp add: calls_def)

lemma calls_call [simp]: "calls (call P c h) = [c]"
  by (simp add: calls_def)

lemma calls_log_swallow [simp]: "calls (log_swallow p m h) = calls (m h)"
  by (simp add: calls_def)

lemma calls_log_reraise [simp]: "calls (log_reraise p m h) = calls (m h)"
  by (simp add: calls_def log_reraise_events)

lemma only_calls_ret [simp]: "only_calls Q (ret x)"
  by (simp add: only_calls_def)

lemma only_calls_raise [simp]: "only_calls Q (raise e)"
  by (simp add: only_calls_def)

lemma only_calls_print [simp]: "only_calls Q (print l)"
  by (simp add: only_calls_def)

lemma only_calls_call: "Q c \<Longrightarrow> only_calls Q (call P c)"
  by (simp add: only_calls_def)

lemma only_calls_bnd:
  "only_calls Q m \<Longrightarrow> (\<And>x. only_calls Q (f x)) \<Longrightarrow> only_calls Q (bnd m f)"
  by (auto simp: only_calls_def calls_bnd split: sum.splits)

lemma only_calls_seq: "only_calls Q m \<Longrightarrow> only_calls Q k \<Longrightarrow> only_calls Q (seq m k)"
  by (simp add: seq_def only_calls_bnd)

lemma only_calls_catch:
  "only_calls Q m \<Longrightarrow> (\<And>e. only_calls Q (k e)) \<Longrightarrow> only_calls Q (catch m k)"
  by (auto simp: only_calls_def calls_catch split: sum.splits)

lemma only_calls_log_swallow: "only_calls Q m \<Longrightarrow> only_calls Q (log_swallow p m)"
  by (simp add: only_calls_def)

lemma only_calls_log_reraise: "only_calls Q m \<Longrightarrow> only_calls Q (log_reraise p m)"
  by (simp add: only_calls_def)

lemma only_calls_for_each:
  "(\<And>x. only_calls Q (body x)) \<Longrightarrow> only_calls Q (for_each xs body)"
  by (induction xs) (simp_all add: only_calls_bnd)

lemma only_calls_if:
  "(b \<Longrightarrow> only_calls Q m) \<Longrightarrow> (\<not> b \<Longrightarrow> only_calls Q k) \<Longrightarrow>
     only_calls Q (if b then m else k)"
  by simp

lemmas only_calls_intros = only_calls_bnd only_calls_seq only_calls_catch
  only_calls_log_swallow only_calls_log_reraise only_calls_for_each only_calls_if
  only_calls_ret only_calls_raise only_calls_print only_calls_call

lemma step_simps [simp]:
  "step_of (EC2 (DescribeNatGateways v)) = 1"
  "step_of (EC2 (DeleteNatGateway g)) = 1"
  "step_of (EC2 (Wait ''nat_gateway_deleted'' g)) = 1"
  "step_of (EC2 (ReleaseAddress a)) = 1"
  "step_of (EC2 (DescribeRouteTables v)) = 2"
  "step_of (EC2 (DisassociateRouteTable a)) = 2"
  "step_of (EC2 (DeleteRouteTable r)) = 2"
  "step_of (EC2 (DescribeInternetGateways v)) = 3"
  "step_of (EC2 (DetachInternetGateway g v)) = 3"
  "step_of (EC2 (DeleteInternetGateway g)) = 3"
  "step_of (EC2 (DescribeSubnets v)) = 4"
  "step_of (EC2 (DeleteSubnet s)) = 4"
  "step_of (EC2 (DescribeSecurityGroups f)) = 5"
  "step_of (EC2 (DeleteSecurityGroup g)) = 5"
  "step_of (EC2 (DeleteVpc v)) = 6"
  by (simp_all add: step_of_def ec2_step_def)

lemma step1: "only_calls (\<lambda>c. step_of c = 1) (cleanup_nat_gateways P v)"
  unfolding cleanup_nat_gateways_def cleanup_nat_gateway_def release_addresses_def Let_def
  by (auto intro!: only_calls_intros split: response.splits)

lemma step2: "only_calls (\<lambda>c. step_of c = 2) (cleanup_route_tables P v)"
  unfolding cleanup_route_tables_def cleanup_route_table_def disassociate_subnets_def Let_def
  by (auto intro!: only_calls_intros split: response.splits)

lemma step3: "only_calls (\<lambda>c. step_of c = 3) (cleanup_internet_gateways P v)"
  unfolding cleanup_internet_gateways_def
  by (auto intro!: only_calls_intros split: response.splits)

lemma step4: "only_calls (\<lambda>c. step_of c = 4) (cleanup_subnets P v)"
  unfolding cleanup_subnets_def
  by (auto intro!: only_calls_intros split: response.splits)

lemma step5: "only_calls (\<lambda>c. step_of c = 5) (cleanup_security_groups P v)"
  unfolding cleanup_security_groups_def
  by (auto intro!: only_calls_intros split: response.splits)

lemma ordered_from_step:
  assumes m: "only_calls (\<lambda>c. step_of c = k) m" and n: "ordered_from k' n" and le: "k \<le> k'"
  shows "ordered_from k (seq m n)"
  unfolding ordered_from_def
proof
  fix h
  from m have a: "list_all (\<lambda>c. step_of c = k) (calls (m h))"
    by (simp add: only_calls_def)
  then have c: "map step_of (calls (m h)) = replicate (length (calls (m h))) k"
    by (induction "calls (m h)") (auto simp: list_all_iff map_replicate_const [symmetric])
  have s: "sorted (map step_of (calls (m h)))"
    by (simp add: c sorted_replicate)
  from n have b: "sorted (map step_of (calls (n h')))"
    "list_all (\<lambda>c. k' \<le> step_of c) (calls (n h'))" for h'
    by (simp_all add: ordered_from_def)
  show "sorted (map step_of (calls (seq m n h))) \<and>
        list_all (\<lambda>c. k \<le> step_of c) (calls (seq m n h))"
  proof (cases "result (m h)")
    case (Inl e)
    with a s show ?thesis
      by (simp add: seq_def calls_bnd list_all_iff)
  next
    case (Inr x)
    have "k \<le> step_of c" if "c \<in> set (calls (n (h @ events (m h))))" for c
      using b(2) [of "h @ events (m h)"] that le by (auto simp: list_all_iff)
    with Inr a s b(1) [of "h @ events (m h)"] show ?thesis
      by (auto simp: seq_def calls_bnd sorted_append list_all_iff)
  qed
qed

lemma ordered_from_last: "only_calls (\<lambda>c. step_of c = k) m \<Longrightarrow> ordered_from k (seq m (ret x))"
  by (rule ordered_from_step [where k' = k]) (simp_all add: ordered_from_def)

lemma ordered_cleanup_specific_vpc: "ordered_from 1 (cleanup_specific_vpc P v)"
proof -
  have "ordered_from 6 (seq (call P (EC2 (DeleteVpc v))) (ret ()))"
    by (rule ordered_from_last) (simp add: only_calls_call)
  then have "ordered_from 5 (seq (cleanup_security_groups P v)
      (seq (call P (EC2 (DeleteVpc v))) (ret ())))"
    by (rule ordered_from_step [OF step5]) simp
  then have "ordered_from 4 (seq (cleanup_subnets P v) (seq (cleanup_security_groups P v)
      (seq (call P (EC2 (DeleteVpc v))) (ret ()))))"
    by (rule ordered_from_step [OF step4]) simp
  then have "ordered_from 3 (seq (cleanup_internet_gateways P v) (seq (cleanup_subnets P v)
      (seq (cleanup_security_groups P v) (seq (call P (EC2 (DeleteVpc v))) (ret ())))))"
    by (rule ordered_from_step [OF step3]) simp
  then have "ordered_from 2 (seq (cleanup_route_tables P v) (seq (cleanup_internet_gateways P v)
      (seq (cleanup_subnets P v) (seq (cleanup_security_groups P v)
      (seq (call P (EC2 (DeleteVpc v))) (ret ()))))))"
    by (rule ordered_from_step [OF step2]) simp
  then have "ordered_from 1 (seq (cleanup_nat_gateways P v) (seq (cleanup_route_tables P v)
      (seq (cleanup_internet_gateways P v) (seq (cleanup_subnets P v)
      (seq (cleanup_security_groups P v) (seq (call P (EC2 (DeleteVpc v))) (ret ())))))))"
    by (rule ordered_from_step [OF step1]) simp
  then show ?thesis
    by (simp add: ordered_from_def cleanup_specific_vpc_def)
qed

subsection \<open>The events of the cleanup loops\<close>

lemma result_call_is_Raise: "is_Raise (P h c) \<Longrightarrow> \<exists>e. result (call P c h) = Inl e"
  by (cases "P h c") (simp_all add: is_Raise_def result_call_cases)

lemma result_call_not_Raise: "\<not> is_Raise (P h c) \<Longrightarrow> result (call P c h) = Inr (P h c)"
  by (cases "P h c") (simp_all add: is_Raise_def result_call_cases)

lemma for_each_result:
  "(\<And>x h. result (body x h) = Inr ()) \<Longrightarrow> result (for_each xs body h) = Inr ()"
  by (induction xs arbitrary: h) (simp_all add: result_bnd)

lemma for_each_calls:
  assumes "\<And>x h. result (body x h) = Inr ()" and "\<And>x h. calls (body x h) = f x"
  shows "calls (for_each xs body h) = concat (map f xs)"
  using assms by (induction xs arbitrary: h) (simp_all add: calls_bnd)

lemma for_each_blocks:
  assumes "\<And>x h. result (body x h) = Inr ()"
  shows "\<exists>bs. events (for_each xs body h) = concat bs
     \<and> list_all2 (\<lambda>x b. \<exists>h'. b = events (body x h')) xs bs"
proof (induction xs arbitrary: h)
  case Nil
  show ?case by simp
next
  case (Cons x xs)
  from Cons [of "h @ events (body x h)"] obtain bs where
    bs: "events (for_each xs body (h @ events (body x h))) = concat bs"
      "list_all2 (\<lambda>x b. \<exists>h'. b = events (body x h')) xs bs"
    by blast
  have "events (for_each (x # xs) body h) = concat (events (body x h) # bs)"
    using assms [of x h] bs(1) by (simp add: events_bnd)
  moreover have "list_all2 (\<lambda>x b. \<exists>h'. b = events (body x h')) (x # xs) (events (body x h) # bs)"
    using bs(2) by auto
  ultimately show ?case by blast
qed

lemma cleanup_nat_gateway_result [simp]: "result (cleanup_nat_gateway P g h) = Inr ()"
  by (simp add: cleanup_nat_gateway_def Let_def)

lemma release_calls:
  "map fst (events (release_addresses P as h)) = map (\<lambda>a. EC2 (ReleaseAddress a)) as"
  using for_each_calls [where body = "\<lambda>allocation_id.
       log_swallow (''Error releasing Elastic IP '' @ allocation_id @ '': '')
         (seq (call P (EC2 (ReleaseAddress allocation_id))) (ret ()))"
      and f = "\<lambda>a. [EC2 (ReleaseAddress a)]" and xs = as and h = h]
  by (simp add: release_addresses_def calls_def seq_def events_bnd split: sum.splits)

lemma cleanup_nat_gateway_block: "nat_gateway_block g (events (cleanup_nat_gateway P g h))"
proof (cases "State g \<in> set [''deleted'', ''deleting'']")
  case True
  then show ?thesis
    by (simp add: nat_gateway_block_def cleanup_nat_gateway_def)
next
  case live: False
  let ?d = "EC2 (DeleteNatGateway (NatGatewayId_of g))"
  let ?w = "EC2 (Wait ''nat_gateway_deleted'' (NatGatewayId_of g))"
  show ?thesis
  proof (cases "is_Raise (P h ?d)")
    case True
    then obtain e where "result (call P ?d h) = Inl e"
      using result_call_is_Raise by blast
    with True live show ?thesis
      by (simp add: nat_gateway_block_def cleanup_nat_gateway_def Let_def seq_def events_bnd)
  next
    case d: False
    then have rd: "result (call P ?d h) = Inr (P h ?d)"
      by (rule result_call_not_Raise)
    show ?thesis
    proof (cases "is_Raise (P (h @ [(?d, P h ?d)]) ?w)")
      case True
      then obtain e where "result (call P ?w (h @ [(?d, P h ?d)])) = Inl e"
        using result_call_is_Raise by blast
      with True live d rd show ?thesis
        by (simp add: nat_gateway_block_def cleanup_nat_gateway_def Let_def seq_def events_bnd)
    next
      case w: False
      then have rw: "result (call P ?w (h @ [(?d, P h ?d)])) = Inr (P (h @ [(?d, P h ?d)]) ?w)"
        by (rule result_call_not_Raise)
      from live d w rd rw show ?thesis
        by (simp add: nat_gateway_block_def cleanup_nat_gateway_def Let_def
            events_bnd [of "call P c" for c] events_bnd [of "bnd (call P c) f" for c f]
            seq_def result_bnd release_calls)
    qed
  qed
qed

lemma cleanup_nat_gateways_blocks:
  assumes "P h (EC2 (DescribeNatGateways v)) = NatGateways gs"
  shows "\<exists>bs. events (cleanup_nat_gateways P v h)
        = (EC2 (DescribeNatGateways v), NatGateways gs) # concat bs
     \<and> list_all2 nat_gateway_block gs bs"
proof -
  let ?h = "h @ [(EC2 (DescribeNatGateways v), NatGateways gs)]"
  from for_each_blocks [of "cleanup_nat_gateway P" gs ?h] obtain bs where
    bs: "events (for_each gs (cleanup_nat_gateway P) ?h) = concat bs"
      "list_all2 (\<lambda>x b. \<exists>h'. b = events (cleanup_nat_gateway P x h')) gs bs"
    by auto
  from bs(2) have "list_all2 nat_gateway_block gs bs"
    by (rule list_all2_mono) (auto simp: cleanup_nat_gateway_block)
  moreover have "events (cleanup_nat_gateways P v h)
      = (EC2 (DescribeNatGateways v), NatGateways gs) # concat bs"
    using assms bs(1)
    by (simp add: cleanup_nat_gateways_def events_bnd result_bnd result_call_ok)
  ultimately show ?thesis by blast
qed

lemma cleanup_route_table_result [simp]: "result (cleanup_route_table P rt h) = Inr ()"
  by (simp add: cleanup_route_table_def Let_def)

lemma disassociate_calls:
  "calls (disassociate_subnets P as h)
   = map (\<lambda>a. EC2 (DisassociateRouteTable (RouteTableAssociationId a)))
       (filter (\<lambda>a. SubnetId a \<noteq> None) as)"
proof -
  have "calls (disassociate_subnets P as h)
    = concat (map (\<lambda>a. if SubnetId a \<noteq> None
         then [EC2 (DisassociateRouteTable (RouteTableAssociationId a))] else []) as)"
    unfolding disassociate_subnets_def
    by (rule for_each_calls) (auto simp: Let_def seq_def calls_bnd split: sum.splits)
  also have "\<dots> = map (\<lambda>a. EC2 (DisassociateRouteTable (RouteTableAssociationId a)))
       (filter (\<lambda>a. SubnetId a \<noteq> None) as)"
    by (induction as) auto
  finally show ?thesis .
qed

lemma disassociate_result [simp]: "result (disassociate_subnets P as h) = Inr ()"
  unfolding disassociate_subnets_def
  by (rule for_each_result) (simp add: Let_def)

lemma cleanup_route_table_calls: "calls (cleanup_route_table P rt h) = route_table_calls rt"
  by (simp add: cleanup_route_table_def route_table_calls_def Let_def seq_def calls_bnd
      disassociate_calls split: sum.splits)

lemma cleanup_route_tables_calls:
  assumes "P h (EC2 (DescribeRouteTables v)) = RouteTables rts"
  shows "calls (cleanup_route_tables P v h)
     = EC2 (DescribeRouteTables v) # concat (map route_table_calls rts)"
  using assms
  by (simp add: cleanup_route_tables_def calls_bnd result_bnd result_call_ok
      for_each_calls [where f = route_table_calls] cleanup_route_table_calls)

lemma cleanup_internet_gateway_block:
  "internet_gateway_block v g (events (log_swallow p
       (seq (call P (EC2 (DetachInternetGateway g v)))
       (seq (call P (EC2 (DeleteInternetGateway g))) (ret ()))) h))"
proof (cases "is_Raise (P h (EC2 (DetachInternetGateway g v)))")
  case True
  then obtain e where "result (call P (EC2 (DetachInternetGateway g v)) h) = Inl e"
    using result_call_is_Raise by blast
  with True show ?thesis
    by (simp add: internet_gateway_block_def seq_def events_bnd)
next
  case False
  then have "result (call P (EC2 (DetachInternetGateway g v)) h)
      = Inr (P h (EC2 (DetachInternetGateway g v)))"
    by (rule result_call_not_Raise)
  with False show ?thesis
    by (simp add: internet_gateway_block_def seq_def events_bnd split: sum.splits)
qed

lemma cleanup_internet_gateways_blocks:
  assumes "P h (EC2 (DescribeInternetGateways v)) = InternetGateways gs"
  shows "\<exists>bs. events (cleanup_internet_gateways P v h)
        = (EC2 (DescribeInternetGateways v), InternetGateways gs) # concat bs
     \<and> list_all2 (internet_gateway_block v) gs bs"
proof -
  let ?h = "h @ [(EC2 (DescribeInternetGateways v), InternetGateways gs)]"
  let ?body = "\<lambda>igw_id. log_swallow (''Error deleting Internet Gateway '' @ igw_id @ '': '')
         (seq (call P (EC2 (DetachInternetGateway igw_id v)))
         (seq (call P (EC2 (DeleteInternetGateway igw_id))) (ret ())))"
  from for_each_blocks [of ?body gs ?h] obtain bs where
    bs: "events (for_each gs ?body ?h) = concat bs"
      "list_all2 (\<lambda>x b. \<exists>h'. b = events (?body x h')) gs bs"
    by auto
  from bs(2) have "list_all2 (internet_gateway_block v) gs bs"
    by (rule list_all2_mono) (use cleanup_internet_gateway_block in blast)
  moreover have "events (cleanup_internet_gateways P v h)
      = (EC2 (DescribeInternetGateways v), InternetGateways gs) # concat bs"
    using assms bs(1)
    by (simp add: cleanup_internet_gateways_def events_bnd result_bnd result_call_ok)
  ultimately show ?thesis by blast
qed

lemma cleanup_subnets_calls:
  assumes "P h (EC2 (DescribeSubnets v)) = Subnets ids"
  shows "calls (cleanup_subnets P v h)
     = EC2 (DescribeSubnets v) # map (\<lambda>s. EC2 (DeleteSubnet s)) ids"
proof -
  have "calls (for_each ids (\<lambda>subnet_id.
       log_swallow (''Error deleting subnet '' @ subnet_id @ '': '')
         (seq (call P (EC2 (DeleteSubnet subnet_id))) (ret ()))) h')
     = concat (map (\<lambda>s. [EC2 (DeleteSubnet s)]) ids)" for h'
    by (rule for_each_calls) (auto simp: seq_def calls_bnd split: sum.splits)
  then show ?thesis
    using assms
    by (simp add: cleanup_subnets_def calls_bnd result_bnd result_call_ok)
qed

lemma cleanup_security_groups_calls:
  assumes "P h (EC2 (DescribeSecurityGroups [(''vpc-id'', v)])) = SecurityGroups sgs"
  shows "calls (cleanup_security_groups P v h)
     = EC2 (DescribeSecurityGroups [(''vpc-id'', v)])
       # map (\<lambda>g. EC2 (DeleteSecurityGroup (GroupId_of g)))
           (filter (\<lambda>g. GroupName g \<noteq> ''default'') sgs)"
proof -
  have "calls (for_each sgs (\<lambda>sg.
       if GroupName sg \<noteq> ''default'' then
         log_swallow (''Error deleting security group '' @ GroupId_of sg @ '': '')
           (seq (call P (EC2 (DeleteSecurityGroup (GroupId_of sg)))) (ret ()))
       else ret ()) h')
     = concat (map (\<lambda>g. if GroupName g \<noteq> ''default''
          then [EC2 (DeleteSecurityGroup (GroupId_of g))] else []) sgs)" for h'
    by (rule for_each_calls) (auto simp: seq_def calls_bnd split: sum.splits)
  moreover have "concat (map (\<lambda>g. if GroupName g \<noteq> ''default''
          then [EC2 (DeleteSecurityGroup (GroupId_of g))] else []) sgs)
     = map (\<lambda>g. EC2 (DeleteSecurityGroup (GroupId_of g)))
           (filter (\<lambda>g. GroupName g \<noteq> ''default'') sgs)"
    by (induction sgs) auto
  ultimately show ?thesis
    using assms
    by (simp add: cleanup_security_groups_def calls_bnd result_bnd result_call_ok)
qed

lemma only_calls_mono: "only_calls Q m \<Longrightarrow> (\<And>c. Q c \<Longrightarrow> R c) \<Longrightarrow> only_calls R m"
  by (auto simp: only_calls_def list_all_iff)

lemma cleanup_specific_vpc_steps:
  "only_calls (\<lambda>c. 1 \<le> step_of c \<and> step_of c \<le> 6) (cleanup_specific_vpc P v)"
  unfolding cleanup_specific_vpc_def
  by (intro only_calls_intros only_calls_mono [OF step1] only_calls_mono [OF step2]
      only_calls_mono [OF step3] only_calls_mono [OF step4] only_calls_mono [OF step5])
    simp_all

lemma cleanup_nat_gateways_result:
  "P h (EC2 (DescribeNatGateways v)) = NatGateways gs \<Longrightarrow>
     result (cleanup_nat_gateways P v h) = Inr ()"
  by (simp add: cleanup_nat_gateways_def result_bnd result_call_ok for_each_result)

lemma cleanup_route_tables_result:
  "P h (EC2 (DescribeRouteTables v)) = RouteTables rts \<Longrightarrow>
     result (cleanup_route_tables P v h) = Inr ()"
  by (simp add: cleanup_route_tables_def result_bnd result_call_ok for_each_result)

lemma cleanup_internet_gateways_result:
  "P h (EC2 (DescribeInternetGateways v)) = InternetGateways gs \<Longrightarrow>
     result (cleanup_internet_gateways P v h) = Inr ()"
  by (simp add: cleanup_internet_gateways_def result_bnd result_call_ok for_each_result)

lemma cleanup_subnets_result:
  "P h (EC2 (DescribeSubnets v)) = Subnets ids \<Longrightarrow> result (cleanup_subnets P v h) = Inr ()"
  by (simp add: cleanup_subnets_def result_bnd result_call_ok for_each_result)

lemma cleanup_security_groups_result:
  "P h (EC2 (DescribeSecurityGroups [(''vpc-id'', v)])) = SecurityGroups sgs \<Longrightarrow>
     result (cleanup_security_groups P v h) = Inr ()"
  by (simp add: cleanup_security_groups_def result_bnd result_call_ok for_each_result)

lemma cleanup_specific_vpc_events:
  assumes "describes_answered P v"
  shows "(let e1 = events (cleanup_nat_gateways P v h);
              e2 = events (cleanup_route_tables P v (h @ e1));
              e3 = events (cleanup_internet_gateways P v (h @ e1 @ e2));
              e4 = events (cleanup_subnets P v (h @ e1 @ e2 @ e3));
              e5 = events (cleanup_security_groups P v (h @ e1 @ e2 @ e3 @ e4));
              h5 = h @ e1 @ e2 @ e3 @ e4 @ e5
          in events (cleanup_specific_vpc P v h)
               = e1 @ e2 @ e3 @ e4 @ e5 @ [(EC2 (DeleteVpc v), P h5 (EC2 (DeleteVpc v)))])"
proof -
  have r: "result (cleanup_nat_gateways P v h') = Inr ()"
    "result (cleanup_route_tables P v h') = Inr ()"
    "result (cleanup_internet_gateways P v h') = Inr ()"
    "result (cleanup_subnets P v h') = Inr ()"
    "result (cleanup_security_groups P v h') = Inr ()" for h'
    using assms [unfolded describes_answered_def, rule_format, of h']
    by (auto intro: cleanup_nat_gateways_result cleanup_route_tables_result
        cleanup_internet_gateways_result cleanup_subnets_result cleanup_security_groups_result)
  show ?thesis
    by (simp add: cleanup_specific_vpc_def seq_def events_bnd r Let_def split: sum.splits)
qed

lemma cleanup_specific_vpc_after_step1:
  "\<exists>rest. events (cleanup_specific_vpc P v h) = events (cleanup_nat_gateways P v h) @ rest
     \<and> (\<forall>a. EC2 (ReleaseAddress a) \<notin> set (map fst rest))"
proof (cases "result (cleanup_nat_gateways P v h)")
  case (Inl e)
  then show ?thesis
    by (simp add: cleanup_specific_vpc_def seq_def events_bnd)
next
  case (Inr u)
  let ?rest = "seq (cleanup_route_tables P v) (seq (cleanup_internet_gateways P v)
      (seq (cleanup_subnets P v) (seq (cleanup_security_groups P v)
      (seq (call P (EC2 (DeleteVpc v))) (ret ())))))"
  have "only_calls (\<lambda>c. 2 \<le> step_of c) ?rest"
    by (intro only_calls_intros only_calls_mono [OF step2]
      only_calls_mono [OF step3] only_calls_mono [OF step4] only_calls_mono [OF step5])
      simp_all
  then have "\<forall>c \<in> set (calls (?rest h')). 2 \<le> step_of c" for h'
    by (simp add: only_calls_def list_all_iff)
  then have "EC2 (ReleaseAddress a) \<notin> set (calls (?rest h'))" for a h'
    by fastforce
  then have "\<forall>a. EC2 (ReleaseAddress a)
      \<notin> set (map fst (events (?rest (h @ events (cleanup_nat_gateways P v h)))))"
    by (simp add: calls_def)
  moreover have "events (cleanup_specific_vpc P v h) = events (cleanup_nat_gateways P v h)
      @ events (?rest (h @ events (cleanup_nat_gateways P v h)))"
    using Inr by (simp add: cleanup_specific_vpc_def events_bnd seq_def [of "cleanup_nat_gateways P v"])
  ultimately show ?thesis by blast
qed

subsection \<open>The concrete provider \<open>small_vpc\<close>\<close>

lemma small_vpc_simps [simp]:
  "small_vpc h (EC2 (DescribeNatGateways v)) = NatGateways
         [\<lparr>NatGatewayId_of = ''nat-1'', State = ''available'',
           NatGatewayAddresses = Some [\<lparr>AllocationId = Some ''eipalloc-1''\<rparr>]\<rparr>,
          \<lparr>NatGatewayId_of = ''nat-0'', State = ''deleted'', NatGatewayAddresses = None\<rparr>]"
  "small_vpc h (EC2 (DescribeRouteTables v)) = RouteTables
         [\<lparr>RouteTableId = ''rtb-0'',
           Associations = Some [\<lparr>Main = Some True, SubnetId = None,
                                 RouteTableAssociationId = ''rtbassoc-0''\<rparr>]\<rparr>,
          \<lparr>RouteTableId = ''rtb-1'',
           Associations = Some [\<lparr>Main = Some False, SubnetId = Some ''subnet-1'',
                                 RouteTableAssociationId = ''rtbassoc-1''\<rparr>]\<rparr>]"
  "small_vpc h (EC2 (DescribeInternetGateways v)) = InternetGateways [''igw-1'']"
  "small_vpc h (EC2 (DescribeSubnets v)) = Subnets [''subnet-1'']"
  "small_vpc h (EC2 (DescribeSecurityGroups f)) = SecurityGroups
         [\<lparr>GroupId_of = ''sg-0'', GroupName = ''default''\<rparr>,
          \<lparr>GroupId_of = ''sg-1'', GroupName = ''dev-sg''\<rparr>]"
  "small_vpc h (EC2 (DeleteNatGateway g)) = Done"
  "small_vpc h (EC2 (Wait w g)) = Done"
  "small_vpc h (EC2 (ReleaseAddress a)) = Done"
  "small_vpc h (EC2 (DisassociateRouteTable a)) = Done"
  "small_vpc h (EC2 (DeleteRouteTable r)) = Done"
  "small_vpc h (EC2 (DetachInternetGateway g v)) = Done"
  "small_vpc h (EC2 (DeleteInternetGateway g)) = Done"
  "small_vpc h (EC2 (DeleteSubnet s)) = Done"
  "small_vpc h (EC2 (DeleteSecurityGroup g)) = Done"
  "small_vpc h (EC2 (DeleteVpc v)) = Done"
  by (simp_all add: small_vpc_def small_vpc_ec2_def)

lemma small_vpc_describes: "describes_answered small_vpc v"
  by (simp add: describes_answered_def)

lemma small_vpc_calls:
  "calls (cleanup_specific_vpc small_vpc ''vpc-1'' []) =
     [EC2 (DescribeNatGateways ''vpc-1''),
      EC2 (DeleteNatGateway ''nat-1''),
      EC2 (Wait ''nat_gateway_deleted'' ''nat-1''),
      EC2 (ReleaseAddress ''eipalloc-1''),
      EC2 (DescribeRouteTables ''vpc-1''),
      EC2 (DisassociateRouteTable ''rtbassoc-1''),
      EC2 (DeleteRouteTable ''rtb-1''),
      EC2 (DescribeInternetGateways ''vpc-1''),
      EC2 (DetachInternetGateway ''igw-1'' ''vpc-1''),
      EC2 (DeleteInternetGateway ''igw-1''),
      EC2 (DescribeSubnets ''vpc-1''),
      EC2 (DeleteSubnet ''subnet-1''),
      EC2 (DescribeSecurityGroups [(''vpc-id'', ''vpc-1'')]),
      EC2 (DeleteSecurityGroup ''sg-1''),
      EC2 (DeleteVpc ''vpc-1'')]"
  by (simp add: cleanup_specific_vpc_def cleanup_nat_gateways_def cleanup_nat_gateway_def
      release_addresses_def allocation_ids_of_def List.map_filter_def
      cleanup_route_tables_def cleanup_route_table_def disassociate_subnets_def is_main_def
      associations_of_def cleanup_internet_gateways_def cleanup_subnets_def
      cleanup_security_groups_def seq_def calls_bnd result_bnd events_bnd result_call_ok Let_def)

lemma small_vpc_step1:
  "calls (cleanup_nat_gateways small_vpc ''vpc-1'' []) =
     [EC2 (DescribeNatGateways ''vpc-1''),
      EC2 (DeleteNatGateway ''nat-1''),
      EC2 (Wait ''nat_gateway_deleted'' ''nat-1''),
      EC2 (ReleaseAddress ''eipalloc-1'')]"
  by (simp add: cleanup_nat_gateways_def cleanup_nat_gateway_def
      release_addresses_def allocation_ids_of_def List.map_filter_def
      seq_def calls_bnd result_bnd events_bnd result_call_ok Let_def)

subsection \<open>Teardown of what is not there\<close>

lemma not_rds_delete_step: "1 \<le> step_of c \<Longrightarrow> \<not> is_rds_delete c"
  by (cases c) (simp_all add: step_of_def is_rds_delete_def)

lemma cleanup_specific_vpc_no_rds_delete:
  "only_calls (\<lambda>c. \<not> is_rds_delete c) (cleanup_specific_vpc P v)"
  by (rule only_calls_mono [OF cleanup_specific_vpc_steps]) (simp add: not_rds_delete_step)

lemma only_calls_vpcs_of [simp]: "only_calls Q (vpcs_of r)"
  by (cases r) (simp_all add: vpcs_of_def)

lemma vpc_searches_result [simp]: "result (vpc_searches P i h) = Inr ()"
  by (simp add: vpc_searches_def seq_def result_bnd)

lemma vpc_searches_calls: "only_calls (\<lambda>c. \<not> is_rds_delete c) (vpc_searches P i)"
  unfolding vpc_searches_def
  by (intro only_calls_intros only_calls_vpcs_of cleanup_specific_vpc_no_rds_delete)
    (simp_all add: is_rds_delete_def)

lemma cleanup_existing_infrastructure_split:
  "cleanup_existing_infrastructure P i =
     seq (catch
             (seq (call P (RDS (DescribeDBSubnetGroups (i @ ''-subnet-group''))))
             (seq (call P (RDS (DeleteDBSubnetGroup (i @ ''-subnet-group'')))) (ret ())))
             (\<lambda>e. if e = DBSubnetGroupNotFoundFault then ret () else raise e))
         (vpc_searches P i)"
  by (simp add: cleanup_existing_infrastructure_def vpc_searches_def Let_def)

lemma cleanup_existing_infrastructure_absent:
  assumes "P h (RDS (DescribeDBSubnetGroups (i @ ''-subnet-group'')))
      = Raise DBSubnetGroupNotFoundFault"
  shows "result (cleanup_existing_infrastructure P i h) = Inr ()"
    and "list_all (\<lambda>c. \<not> is_rds_delete c) (calls (cleanup_existing_infrastructure P i h))"
    and "calls (cleanup_existing_infrastructure P i h)
      = RDS (DescribeDBSubnetGroups (i @ ''-subnet-group''))
        # calls (vpc_searches P i (h @ [(RDS (DescribeDBSubnetGroups (i @ ''-subnet-group'')),
               Raise DBSubnetGroupNotFoundFault)]))"
proof -
  have r: "result (call P (RDS (DescribeDBSubnetGroups (i @ ''-subnet-group''))) h)
      = Inl DBSubnetGroupNotFoundFault"
    using assms by (rule result_call_Raise)
  show "result (cleanup_existing_infrastructure P i h) = Inr ()"
    by (simp add: cleanup_existing_infrastructure_split seq_def result_bnd result_catch r)
  show c: "calls (cleanup_existing_infrastructure P i h)
      = RDS (DescribeDBSubnetGroups (i @ ''-subnet-group''))
        # calls (vpc_searches P i (h @ [(RDS (DescribeDBSubnetGroups (i @ ''-subnet-group'')),
               Raise DBSubnetGroupNotFoundFault)]))"
    by (simp add: cleanup_existing_infrastructure_split seq_def calls_bnd calls_catch
        result_bnd result_catch events_bnd events_catch r assms)
  show "list_all (\<lambda>c. \<not> is_rds_delete c) (calls (cleanup_existing_infrastructure P i h))"
    using vpc_searches_calls [of P i]
    by (simp add: c only_calls_def is_rds_delete_def)
qed

lemma vpc_searches_none:
  assumes "lists_no_vpcs P h i"
  shows "calls (vpc_searches P i h) =
     [EC2 (DescribeVpcs [(''tag:Project'', i), (''tag:CreatedBy'', ''VPCInstanceCreator'')]),
      EC2 (DescribeVpcs [])]"
proof -
  let ?c1 = "EC2 (DescribeVpcs [(''tag:Project'', i), (''tag:CreatedBy'', ''VPCInstanceCreator'')])"
  have a: "P h ?c1 = Vpcs []"
    using assms [unfolded lists_no_vpcs_def, rule_format, of "[]"] by simp
  have b: "P (h @ [(?c1, Vpcs [])]) (EC2 (DescribeVpcs [])) = Vpcs []"
    using assms [unfolded lists_no_vpcs_def, rule_format, of "[(?c1, Vpcs [])]"] by simp
  show ?thesis
    by (simp add: vpc_searches_def seq_def calls_bnd result_bnd events_bnd result_call_ok
        a b vpcs_of_def)
qed

lemma cleanup_complete_setup_absent:
  assumes "reports_absent P h d (case io of None \<Rightarrow> d | Some i \<Rightarrow> i)"
  shows "result (cleanup_complete_setup P d io h) = Inr ()"
    and "list_all (\<lambda>c. \<not> is_rds_delete c) (calls (cleanup_complete_setup P d io h))"
    and "calls (cleanup_complete_setup P d io h)
      = RDS (DescribeDBInstances d)
        # calls (cleanup_existing_infrastructure P (case io of None \<Rightarrow> d | Some i \<Rightarrow> i)
            (h @ [(RDS (DescribeDBInstances d), Raise DBInstanceNotFoundFault)]))"
proof -
  let ?i = "case io of None \<Rightarrow> d | Some i \<Rightarrow> i"
  let ?h = "h @ [(RDS (DescribeDBInstances d), Raise DBInstanceNotFoundFault)]"
  have a: "P h (RDS (DescribeDBInstances d)) = Raise DBInstanceNotFoundFault"
    using assms [unfolded reports_absent_def, rule_format, of "[]"] by simp
  have b: "P ?h (RDS (DescribeDBSubnetGroups (?i @ ''-subnet-group'')))
      = Raise DBSubnetGroupNotFoundFault"
    using assms [unfolded reports_absent_def, rule_format,
        of "[(RDS (DescribeDBInstances d), Raise DBInstanceNotFoundFault)]"] by simp
  have r: "result (call P (RDS (DescribeDBInstances d)) h) = Inl DBInstanceNotFoundFault"
    using a by (rule result_call_Raise)
  show "result (cleanup_complete_setup P d io h) = Inr ()"
    using cleanup_existing_infrastructure_absent(1) [where P = P and h = ?h and i = ?i, OF b]
    by (simp add: cleanup_complete_setup_def Let_def seq_def result_bnd result_catch
        events_bnd events_catch r a)
  show c: "calls (cleanup_complete_setup P d io h)
      = RDS (DescribeDBInstances d) # calls (cleanup_existing_infrastructure P ?i ?h)"
    by (simp add: cleanup_complete_setup_def Let_def seq_def calls_bnd calls_catch result_bnd
        result_catch events_bnd events_catch r a)
  show "list_all (\<lambda>c. \<not> is_rds_delete c) (calls (cleanup_complete_setup P d io h))"
    using cleanup_existing_infrastructure_absent(2) [where P = P and h = ?h and i = ?i, OF b]
    by (simp add: c is_rds_delete_def)
qed

lemma database_only_first_run:
  "events (cleanup_complete_setup database_only ''db'' (Some ''dev'') []) = [(RDS (DescribeDBInstances ''db''),
        DBInstances [\<lparr>DBInstanceStatus = ''available'',
                      Endpoint = Some (''db.example'', 5432), DBName = None\<rparr>]),
       (RDS (DeleteDBInstance ''db'' True), Done),
       (RDS (WaitDBInstanceDeleted ''db'' 30 40), Done),
       (RDS (DescribeDBSubnetGroups ''dev-subnet-group''), DBSubnetGroups [''dev-subnet-group'']),
       (RDS (DeleteDBSubnetGroup ''dev-subnet-group''), Done),
       (EC2 (DescribeVpcs [(''tag:Project'', ''dev''), (''tag:CreatedBy'', ''VPCInstanceCreator'')]),
        Vpcs []),
       (EC2 (DescribeVpcs []), Vpcs [])]"
  by (simp add: cleanup_complete_setup_def cleanup_existing_infrastructure_def Let_def seq_def
      events_bnd events_catch result_bnd result_catch result_call_ok
      database_only_def database_only_rds_def vpcs_of_def)

subsection \<open>Exceptions by the call that raised them\<close>








subsection \<open>The calls of the creation of the infrastructure\<close>

lemma only_calls_map_prog:
  "(\<And>x. only_calls Q (body x)) \<Longrightarrow> only_calls Q (map_prog xs body)"
  by (induction xs) (auto intro!: only_calls_intros)

lemma only_calls_create_vpc: "(\<And>x. Q (EC2 x)) \<Longrightarrow> only_calls Q (create_vpc P a b)"
  unfolding create_vpc_def
  by (auto intro!: only_calls_intros split: response.splits)

lemma only_calls_get_availability_zones:
  "(\<And>x. Q (EC2 x)) \<Longrightarrow> only_calls Q (get_availability_zones P)"
  unfolding get_availability_zones_def
  by (auto intro!: only_calls_intros split: response.splits)

lemma only_calls_create_subnet: "(\<And>x. Q (EC2 x)) \<Longrightarrow> only_calls Q (create_subnet P a b z)"
  unfolding create_subnet_def
  by (auto intro!: only_calls_intros split: response.splits)

lemma only_calls_create_internet_gateway:
  "(\<And>x. Q (EC2 x)) \<Longrightarrow> only_calls Q (create_internet_gateway P a b)"
  unfolding create_internet_gateway_def
  by (auto intro!: only_calls_intros split: response.splits)

lemma only_calls_create_route_table:
  "(\<And>x. Q (EC2 x)) \<Longrightarrow> only_calls Q (create_route_table P a b i q)"
  unfolding create_route_table_def Let_def
  by (auto intro!: only_calls_intros split: response.splits)

lemma only_calls_create_route:
  "(\<And>x. Q (EC2 x)) \<Longrightarrow> only_calls Q (create_route P a b g n)"
  unfolding create_route_def
  by (auto intro!: only_calls_intros)

lemma only_calls_create_nat_gateway:
  "(\<And>x. Q (EC2 x)) \<Longrightarrow> only_calls Q (create_nat_gateway P a b)"
  unfolding create_nat_gateway_def
  by (auto intro!: only_calls_intros split: response.splits)

lemma only_calls_create_rds_postgres_security_group:
  "(\<And>x. Q (EC2 x)) \<Longrightarrow> only_calls Q (create_rds_postgres_security_group P a b)"
  unfolding create_rds_postgres_security_group_def
  by (auto intro!: only_calls_intros split: response.splits)

lemma only_calls_create_subnets:
  "(\<And>x. Q (EC2 x)) \<Longrightarrow> only_calls Q (create_subnets P v i k azs pub priv)"
proof (induction azs arbitrary: k pub priv)
  case Nil
  show ?case by simp
next
  case (Cons az azs)
  show ?case
    unfolding create_subnets.simps Let_def
    by (intro only_calls_intros only_calls_create_subnet Cons)
qed


lemma only_calls_create_rds_subnet_group:
  assumes "\<And>x. \<not> is_create_db_instance (RDS x) \<Longrightarrow> Q (RDS x)"
  shows "only_calls Q (create_rds_subnet_group P n ids)"
proof -
  have q: "Q (RDS (DescribeDBSubnetGroups a))" "Q (RDS (CreateDBSubnetGroup a b c))"
    "Q (RDS (AddTagsToResource a t))" for a b c t
    by (rule assms, simp add: is_create_db_instance_def)+
  have 1: "only_calls Q (case r of
                    DBSubnetGroups (g # _) \<Rightarrow> ret (Some g)
                  | DBSubnetGroups [] \<Rightarrow> raise IndexError
                  | _ \<Rightarrow> raise (KeyError ''DBSubnetGroups''))" for r
    by (cases r) (simp_all split: list.splits)
  have 2: "only_calls Q (case r of
                   DBSubnetGroup name arn \<Rightarrow>
                     seq (call P (RDS (AddTagsToResource arn
                            [(''Name'', n), (''CreatedBy'', ''VPCInstanceCreator'')])))
                         (ret name)
                 | _ \<Rightarrow> raise (KeyError ''DBSubnetGroup''))" for r
    by (cases r) (simp_all add: only_calls_seq only_calls_call q)
  have 3: "only_calls Q (case existing of
             Some g \<Rightarrow> ret g
           | None \<Rightarrow>
               bnd (call P (RDS (CreateDBSubnetGroup n ''Subnet group for RDS'' ids)))
                 (\<lambda>response. case response of
                   DBSubnetGroup name arn \<Rightarrow>
                     seq (call P (RDS (AddTagsToResource arn
                            [(''Name'', n), (''CreatedBy'', ''VPCInstanceCreator'')])))
                         (ret name)
                 | _ \<Rightarrow> raise (KeyError ''DBSubnetGroup'')))" for existing
    by (cases existing) (simp_all add: only_calls_bnd only_calls_call q 2)
  show ?thesis
    unfolding create_rds_subnet_group_def
    by (intro only_calls_intros 1 3 q only_calls_if)
qed


lemmas only_calls_wrappers = only_calls_create_vpc only_calls_get_availability_zones
  only_calls_create_subnets only_calls_create_internet_gateway only_calls_create_route_table
  only_calls_create_route only_calls_create_nat_gateway
  only_calls_create_rds_postgres_security_group only_calls_map_prog

lemma only_calls_case_prod:
  "(\<And>a b. only_calls Q (f a b)) \<Longrightarrow> only_calls Q (case x of (a, b) \<Rightarrow> f a b)"
  by (cases x) simp

lemma only_calls_case_list:
  "only_calls Q m \<Longrightarrow> (\<And>a as. only_calls Q (f a as)) \<Longrightarrow>
     only_calls Q (case xs of [] \<Rightarrow> m | a # as \<Rightarrow> f a as)"
  by (cases xs) simp_all

lemma only_calls_create_complete_infrastructure:
  assumes "\<And>x. Q (EC2 x)" and "\<And>x. \<not> is_create_db_instance (RDS x) \<Longrightarrow> Q (RDS x)"
  shows "only_calls Q (create_complete_infrastructure P i)"
  unfolding create_complete_infrastructure_def Let_def
  by (intro only_calls_intros only_calls_wrappers only_calls_create_rds_subnet_group
      only_calls_case_prod only_calls_case_list assms)

lemma result_bnd_InrE:
  assumes "result (bnd m f h) = Inr y"
  obtains x where "result (m h) = Inr x" and "result (f x (h @ events (m h))) = Inr y"
  using assms by (auto simp: result_bnd split: sum.splits)

lemma returns_ret: "Q x \<Longrightarrow> returns Q (ret x)"
  by (simp add: returns_def)

lemma returns_raise [simp]: "returns Q (raise e)"
  by (simp add: returns_def)

lemma returns_bnd: "(\<And>x. returns Q (f x)) \<Longrightarrow> returns Q (bnd m f)"
  unfolding returns_def by (auto elim!: result_bnd_InrE)

lemma returns_case_prod:
  "(\<And>a b. returns Q (f a b)) \<Longrightarrow> returns Q (case x of (a, b) \<Rightarrow> f a b)"
  by (cases x) simp

lemma returns_create_complete_infrastructure:
  "returns (\<lambda>d. map_of d ''igw_id'' = None \<and> map_of d ''internet_gateway_id'' \<noteq> None
      \<and> map_of d ''vpc_id'' \<noteq> None \<and> map_of d ''public_subnet_ids'' \<noteq> None
      \<and> map_of d ''private_subnet_ids'' \<noteq> None)
     (create_complete_infrastructure P i)"
  unfolding create_complete_infrastructure_def Let_def
  by (intro returns_bnd returns_case_prod returns_ret) simp

lemma convert_vpc_info_raises:
  assumes "map_of d ''igw_id'' = None" and "map_of d ''vpc_id'' \<noteq> None"
    and "map_of d ''public_subnet_ids'' \<noteq> None" and "map_of d ''private_subnet_ids'' \<noteq> None"
  shows "result (convert_vpc_info i d h) = Inl (KeyError ''igw_id'')"
    and "events (convert_vpc_info i d h) = []"
  using assms
  by (auto simp: convert_vpc_info_def getitem_def result_bnd events_bnd)

lemma convert_vpc_info_calls [simp]: "calls (convert_vpc_info i d h) = []"
  by (simp add: convert_vpc_info_def getitem_def calls_bnd split: option.splits sum.splits)

lemma not_cdi [simp]:
  "\<not> is_create_db_instance (EC2 x)"
  "\<not> is_create_db_instance (RDS (DescribeDBSubnetGroups n))"
  by (simp_all add: is_create_db_instance_def)

lemma only_calls_get_vpc_infrastructure_info:
  "only_calls (\<lambda>c. \<not> is_create_db_instance c) (get_vpc_infrastructure_info P i)"
proof -
  have 1: "only_calls (\<lambda>c. \<not> is_create_db_instance c)
      (case r of Subnets ids \<Rightarrow> ret ids | _ \<Rightarrow> raise (KeyError ''Subnets''))" for r
    by (cases r) simp_all
  have 2: "only_calls (\<lambda>c. \<not> is_create_db_instance c)
      (case r of SecurityGroups sgs \<Rightarrow> ret sgs | _ \<Rightarrow> raise (KeyError ''SecurityGroups''))" for r
    by (cases r) simp_all
  show ?thesis
    unfolding get_vpc_infrastructure_info_def subnet_group_exists_prog_def Let_def
    by (intro only_calls_intros only_calls_case_list only_calls_vpcs_of 1 2) simp_all
qed

lemma fresh_infrastructure_raises:
  "\<exists>e. result (bnd (create_complete_infrastructure P i) (convert_vpc_info i) h) = Inl e
     \<and> (\<forall>raw. result (create_complete_infrastructure P i h) = Inr raw \<longrightarrow>
          e = KeyError ''igw_id'' \<and> map_of raw ''igw_id'' = None
          \<and> map_of raw ''internet_gateway_id'' \<noteq> None)
     \<and> (\<forall>e'. result (create_complete_infrastructure P i h) = Inl e' \<longrightarrow> e = e')"
proof (cases "result (create_complete_infrastructure P i h)")
  case (Inl e)
  then show ?thesis by (simp add: result_bnd)
next
  case (Inr raw)
  with returns_create_complete_infrastructure [of P i]
  have k: "map_of raw ''igw_id'' = None" "map_of raw ''internet_gateway_id'' \<noteq> None"
    "map_of raw ''vpc_id'' \<noteq> None" "map_of raw ''public_subnet_ids'' \<noteq> None"
    "map_of raw ''private_subnet_ids'' \<noteq> None"
    by (auto simp: returns_def)
  with Inr show ?thesis
    by (simp add: result_bnd convert_vpc_info_raises(1))
qed

lemma fresh_infrastructure_calls:
  "calls (bnd (create_complete_infrastructure P i) (convert_vpc_info i) h)
     = calls (create_complete_infrastructure P i h)"
  by (simp add: calls_bnd split: sum.splits)

lemma create_complete_rds_setup_fresh:
  assumes "result (get_vpc_infrastructure_info P (case io of None \<Rightarrow> db | Some i \<Rightarrow> i) h) = Inr None"
  shows "result (bnd (create_complete_infrastructure P (case io of None \<Rightarrow> db | Some i \<Rightarrow> i))
          (convert_vpc_info (case io of None \<Rightarrow> db | Some i \<Rightarrow> i))
          (h @ events (get_vpc_infrastructure_info P (case io of None \<Rightarrow> db | Some i \<Rightarrow> i) h)))
        = Inl e \<Longrightarrow> result (create_complete_rds_setup P db io h) = Inl e"
    and "calls (create_complete_rds_setup P db io h)
      = calls (get_vpc_infrastructure_info P (case io of None \<Rightarrow> db | Some i \<Rightarrow> i) h)
        @ calls (create_complete_infrastructure P (case io of None \<Rightarrow> db | Some i \<Rightarrow> i)
          (h @ events (get_vpc_infrastructure_info P (case io of None \<Rightarrow> db | Some i \<Rightarrow> i) h)))"
proof -
  let ?i = "case io of None \<Rightarrow> db | Some i \<Rightarrow> i"
  let ?h1 = "h @ events (get_vpc_infrastructure_info P ?i h)"
  let ?fresh = "bnd (create_complete_infrastructure P ?i) (convert_vpc_info ?i)"
  obtain e where e: "result (?fresh ?h1) = Inl e"
    using fresh_infrastructure_raises [of P ?i ?h1] by blast
  show "result (create_complete_rds_setup P db io h) = Inl e" if "result (?fresh ?h1) = Inl e" for e
    using assms that
    by (simp add: create_complete_rds_setup_def Let_def result_bnd [of "get_vpc_infrastructure_info P ?i"]
        result_bnd [of ?fresh])
  show "calls (create_complete_rds_setup P db io h)
      = calls (get_vpc_infrastructure_info P ?i h) @ calls (create_complete_infrastructure P ?i ?h1)"
    using assms e fresh_infrastructure_calls [of P ?i ?h1]
    by (simp add: create_complete_rds_setup_def Let_def calls_bnd [of "get_vpc_infrastructure_info P ?i"]
        calls_bnd [of ?fresh])
qed

subsection \<open>The concrete providers of the creation\<close>

declare str_nat.simps [simp del]

lemma str_nat_small [simp]:
  "str_nat 1 = ''1''" "str_nat 2 = ''2''" "str_nat 3 = ''3''" "str_nat 4 = ''4''"
  "str_nat (Suc 0) = ''1''" "str_nat (Suc (Suc 0)) = ''2''"
  by code_simp+

lemma vpc_limit_reached_simps [simp]:
  "vpc_limit_reached h (EC2 (DescribeVpcs f)) = Vpcs []"
  "vpc_limit_reached h (EC2 (CreateVpc b)) = Raise (ClientError ''VpcLimitExceeded'')"
  by (simp_all add: vpc_limit_reached_def)

lemma fresh_account_simps [simp]:
  "fresh_account h (EC2 (CreateVpc b)) = Vpc ''vpc-1''"
  "fresh_account h (EC2 (DescribeVpcs f)) = Vpcs []"
  "fresh_account h (EC2 DescribeAvailabilityZones)
     = AvailabilityZones [''az-a'', ''az-b'', ''az-c'']"
  "fresh_account h (EC2 (CreateSubnet v b z)) = Subnet (''subnet-'' @ b)"
  "fresh_account h (EC2 CreateInternetGateway) = InternetGateway ''igw-1''"
  "fresh_account h (EC2 (CreateRouteTable v)) = RouteTable ''rtb-1''"
  "fresh_account h (EC2 AllocateAddress) = Allocation ''eipalloc-1''"
  "fresh_account h (EC2 (CreateNatGateway s a)) = NatGateway ''nat-1''"
  "fresh_account h (EC2 (CreateSecurityGroup n d v)) = GroupId ''sg-1''"
  "fresh_account h (EC2 (Wait w x)) = Done"
  "fresh_account h (EC2 (CreateTags x t)) = Done"
  "fresh_account h (EC2 (ModifyVpcAttribute x y q)) = Done"
  "fresh_account h (EC2 (AttachInternetGateway x y)) = Done"
  "fresh_account h (EC2 (AssociateRouteTable x y)) = Done"
  "fresh_account h (EC2 (CreateRoute x y rt)) = Done"
  "fresh_account h (EC2 (AuthorizeSecurityGroupIngress x)) = Done"
  "fresh_account h (RDS (DescribeDBSubnetGroups n)) = Raise DBSubnetGroupNotFoundFault"
  "fresh_account h (RDS (CreateDBSubnetGroup n d ids)) = DBSubnetGroup n ''arn:subgrp''"
  "fresh_account h (RDS (AddTagsToResource x t)) = Done"
  by (simp_all add: fresh_account_def fresh_account_ec2_def fresh_account_rds_def)

lemma fresh_account_wrappers [simp]:
  "result (create_vpc fresh_account b i h) = Inr ''vpc-1''"
  "result (get_availability_zones fresh_account h) = Inr [''az-a'', ''az-b'']"
  "result (create_subnet fresh_account v b z h) = Inr (''subnet-'' @ b)"
  "result (create_internet_gateway fresh_account v i h) = Inr ''igw-1''"
  "result (create_route_table fresh_account v s i q h) = Inr ''rtb-1''"
  "result (create_route fresh_account r d (Some ''igw-1'') None h) = Inr ()"
  "result (create_route fresh_account r d None (Some ''nat-1'') h) = Inr ()"
  "result (create_nat_gateway fresh_account s i h) = Inr ''nat-1''"
  "result (create_rds_postgres_security_group fresh_account v i h) = Inr ''sg-1''"
  "result (create_rds_subnet_group fresh_account n ids h) = Inr n"
  by (simp_all add: create_vpc_def get_availability_zones_def create_subnet_def
      create_internet_gateway_def create_route_table_def create_route_def create_nat_gateway_def
      create_rds_postgres_security_group_def create_rds_subnet_group_def
      log_reraise_result seq_def result_bnd result_catch result_call_ok result_call_Raise Let_def)

lemma fresh_account_subnets:
  "result (create_subnets fresh_account ''vpc-1'' ''dev'' 0 [''az-a'', ''az-b''] [] [] h)
     = Inr ([''subnet-10.0.1.0/24'', ''subnet-10.0.3.0/24''],
            [''subnet-10.0.2.0/24'', ''subnet-10.0.4.0/24''])"
  by (simp add: Let_def seq_def result_bnd result_call_ok)

lemma fresh_account_infrastructure:
  "result (create_complete_infrastructure fresh_account ''dev'' h) =
     Inr [(''vpc_id'', PStr ''vpc-1''),
          (''public_subnet_ids'', PStrList [''subnet-10.0.1.0/24'', ''subnet-10.0.3.0/24'']),
          (''private_subnet_ids'', PStrList [''subnet-10.0.2.0/24'', ''subnet-10.0.4.0/24'']),
          (''internet_gateway_id'', PStr ''igw-1''),
          (''nat_gateway_id'', PStr ''nat-1''),
          (''security_group_id'', PStr ''sg-1''),
          (''rds_subnet_group'', PStr ''dev-subnet-group'')]"
  by (simp add: create_complete_infrastructure_def Let_def seq_def result_bnd
      result_call_ok)

lemma fresh_account_info:
  "result (get_vpc_infrastructure_info fresh_account ''dev'' []) = Inr None"
  by (simp add: get_vpc_infrastructure_info_def result_bnd result_catch result_call_ok
      vpcs_of_def)

section \<open>The claims\<close>

text \<open>
  C10. Whenever the provider answers \<open>describe_availability_zones\<close> with a list of
  \<open>n\<close> zone names, \<open>get_availability_zones\<close> returns the first \<open>min 2 n\<close> of them in
  the provider's order, after this one call: never more than two, and fewer than two
  when fewer than two are listed.
\<close>

theorem get_availability_zones_first_two:
  "P h (EC2 DescribeAvailabilityZones) = AvailabilityZones zs \<Longrightarrow>
     result (get_availability_zones P h) = Inr (take 2 zs)
     \<and> length (take 2 zs) = min 2 (length zs)
     \<and> calls (get_availability_zones P h) = [EC2 DescribeAvailabilityZones]"
  by (simp add: get_availability_zones_def prog_simps result_call_ok calls_events)

theorem get_availability_zones_first_two_witness:
  "zones3 [] (EC2 DescribeAvailabilityZones)
     = AvailabilityZones [''us-east-1a'', ''us-east-1b'', ''us-east-1c'']
   \<and> result (get_availability_zones zones3 []) = Inr [''us-east-1a'', ''us-east-1b'']"
  using get_availability_zones_first_two
    [of zones3 "[]" "[''us-east-1a'', ''us-east-1b'', ''us-east-1c'']"]
  by (simp add: zones3_def)




text \<open>
  C1. The calls of \<open>cleanup_specific_vpc\<close> are in the order of the six steps (NAT
  gateways, route tables, internet gateways, subnets, security groups, VPC) and every call
  belongs to one of them, for every VPC id, provider and history. When the provider
  answers the five listings, the events are those of the five loops one after the other,
  each started where the previous one ended, followed by the one call \<open>delete_vpc\<close>.
  Within the steps: a NAT gateway that is neither deleted nor being deleted is deleted,
  then (when that did not raise) waited for, then (when the wait did not raise) the
  Elastic IPs recorded from its addresses are released, and a deleted one is left alone;
  a route table that is not main is disassociated from each of its subnets and then
  deleted, and a main one is left alone; an internet gateway is detached and, when that
  did not raise, deleted; every subnet is deleted; every security group but \<open>default\<close>
  is deleted.
\<close>

theorem cleanup_specific_vpc_six_steps:
  "sorted (map step_of (calls (cleanup_specific_vpc P v h)))
   \<and> list_all (\<lambda>c. 1 \<le> step_of c \<and> step_of c \<le> 6) (calls (cleanup_specific_vpc P v h))
   \<and> (describes_answered P v \<longrightarrow>
        (let e1 = events (cleanup_nat_gateways P v h);
             e2 = events (cleanup_route_tables P v (h @ e1));
             e3 = events (cleanup_internet_gateways P v (h @ e1 @ e2));
             e4 = events (cleanup_subnets P v (h @ e1 @ e2 @ e3));
             e5 = events (cleanup_security_groups P v (h @ e1 @ e2 @ e3 @ e4));
             h5 = h @ e1 @ e2 @ e3 @ e4 @ e5
         in events (cleanup_specific_vpc P v h)
              = e1 @ e2 @ e3 @ e4 @ e5 @ [(EC2 (DeleteVpc v), P h5 (EC2 (DeleteVpc v)))]))
   \<and> (P h (EC2 (DescribeNatGateways v)) = NatGateways ngs \<longrightarrow>
        (\<exists>bs. events (cleanup_nat_gateways P v h)
                = (EC2 (DescribeNatGateways v), NatGateways ngs) # concat bs
              \<and> list_all2 nat_gateway_block ngs bs))
   \<and> (P h (EC2 (DescribeRouteTables v)) = RouteTables rts \<longrightarrow>
        calls (cleanup_route_tables P v h)
          = EC2 (DescribeRouteTables v) # concat (map route_table_calls rts))
   \<and> (P h (EC2 (DescribeInternetGateways v)) = InternetGateways gs \<longrightarrow>
        (\<exists>bs. events (cleanup_internet_gateways P v h)
                = (EC2 (DescribeInternetGateways v), InternetGateways gs) # concat bs
              \<and> list_all2 (internet_gateway_block v) gs bs))
   \<and> (P h (EC2 (DescribeSubnets v)) = Subnets ids \<longrightarrow>
        calls (cleanup_subnets P v h)
          = EC2 (DescribeSubnets v) # map (\<lambda>s. EC2 (DeleteSubnet s)) ids)
   \<and> (P h (EC2 (DescribeSecurityGroups [(''vpc-id'', v)])) = SecurityGroups sgs \<longrightarrow>
        calls (cleanup_security_groups P v h)
          = EC2 (DescribeSecurityGroups [(''vpc-id'', v)])
            # map (\<lambda>g. EC2 (DeleteSecurityGroup (GroupId_of g)))
                (filter (\<lambda>g. GroupName g \<noteq> ''default'') sgs))"
proof -
  have "sorted (map step_of (calls (cleanup_specific_vpc P v h)))"
    using ordered_cleanup_specific_vpc [of P v] by (simp add: ordered_from_def)
  moreover have "list_all (\<lambda>c. 1 \<le> step_of c \<and> step_of c \<le> 6)
      (calls (cleanup_specific_vpc P v h))"
    using cleanup_specific_vpc_steps [of P v] by (simp add: only_calls_def)
  ultimately show ?thesis
    using cleanup_specific_vpc_events [of P v h] cleanup_nat_gateways_blocks [of P h v ngs]
      cleanup_route_tables_calls [of P h v rts]
      cleanup_internet_gateways_blocks [of P h v gs] cleanup_subnets_calls [of P h v ids]
      cleanup_security_groups_calls [of P h v sgs]
    by blast
qed

text \<open>C1 on the provider \<open>small_vpc\<close>, whose listings are all answered.\<close>

theorem cleanup_specific_vpc_six_steps_witness:
  "describes_answered small_vpc ''vpc-1''
   \<and> sorted (map step_of (calls (cleanup_specific_vpc small_vpc ''vpc-1'' [])))
   \<and> (let e1 = events (cleanup_nat_gateways small_vpc ''vpc-1'' []);
           e2 = events (cleanup_route_tables small_vpc ''vpc-1'' ([] @ e1));
           e3 = events (cleanup_internet_gateways small_vpc ''vpc-1'' ([] @ e1 @ e2));
           e4 = events (cleanup_subnets small_vpc ''vpc-1'' ([] @ e1 @ e2 @ e3));
           e5 = events (cleanup_security_groups small_vpc ''vpc-1'' ([] @ e1 @ e2 @ e3 @ e4))
       in events (cleanup_specific_vpc small_vpc ''vpc-1'' [])
            = e1 @ e2 @ e3 @ e4 @ e5 @ [(EC2 (DeleteVpc ''vpc-1''), Done)])
   \<and> (\<exists>bs. events (cleanup_nat_gateways small_vpc ''vpc-1'' [])
               = (EC2 (DescribeNatGateways ''vpc-1''),
                  NatGateways
                    [\<lparr>NatGatewayId_of = ''nat-1'', State = ''available'',
                      NatGatewayAddresses = Some [\<lparr>AllocationId = Some ''eipalloc-1''\<rparr>]\<rparr>,
                     \<lparr>NatGatewayId_of = ''nat-0'', State = ''deleted'',
                      NatGatewayAddresses = None\<rparr>]) # concat bs
             \<and> list_all2 nat_gateway_block
                  [\<lparr>NatGatewayId_of = ''nat-1'', State = ''available'',
                    NatGatewayAddresses = Some [\<lparr>AllocationId = Some ''eipalloc-1''\<rparr>]\<rparr>,
                   \<lparr>NatGatewayId_of = ''nat-0'', State = ''deleted'',
                    NatGatewayAddresses = None\<rparr>] bs)
   \<and> calls (cleanup_nat_gateways small_vpc ''vpc-1'' [])
       = [EC2 (DescribeNatGateways ''vpc-1''), EC2 (DeleteNatGateway ''nat-1''),
          EC2 (Wait ''nat_gateway_deleted'' ''nat-1''), EC2 (ReleaseAddress ''eipalloc-1'')]
   \<and> calls (cleanup_route_tables small_vpc ''vpc-1'' [])
       = [EC2 (DescribeRouteTables ''vpc-1''), EC2 (DisassociateRouteTable ''rtbassoc-1''),
          EC2 (DeleteRouteTable ''rtb-1'')]
   \<and> (\<exists>bs. events (cleanup_internet_gateways small_vpc ''vpc-1'' [])
               = (EC2 (DescribeInternetGateways ''vpc-1''), InternetGateways [''igw-1''])
                 # concat bs
             \<and> list_all2 (internet_gateway_block ''vpc-1'') [''igw-1''] bs)
   \<and> calls (cleanup_subnets small_vpc ''vpc-1'' [])
       = [EC2 (DescribeSubnets ''vpc-1''), EC2 (DeleteSubnet ''subnet-1'')]
   \<and> calls (cleanup_security_groups small_vpc ''vpc-1'' [])
       = [EC2 (DescribeSecurityGroups [(''vpc-id'', ''vpc-1'')]),
          EC2 (DeleteSecurityGroup ''sg-1'')]"
  using cleanup_specific_vpc_six_steps [where P = small_vpc and v = "''vpc-1''" and h = "[]"
      and ngs = "[\<lparr>NatGatewayId_of = ''nat-1'', State = ''available'',
           NatGatewayAddresses = Some [\<lparr>AllocationId = Some ''eipalloc-1''\<rparr>]\<rparr>,
          \<lparr>NatGatewayId_of = ''nat-0'', State = ''deleted'', NatGatewayAddresses = None\<rparr>]"
      and rts = "[\<lparr>RouteTableId = ''rtb-0'',
           Associations = Some [\<lparr>Main = Some True, SubnetId = None,
                                 RouteTableAssociationId = ''rtbassoc-0''\<rparr>]\<rparr>,
          \<lparr>RouteTableId = ''rtb-1'',
           Associations = Some [\<lparr>Main = Some False, SubnetId = Some ''subnet-1'',
                                 RouteTableAssociationId = ''rtbassoc-1''\<rparr>]\<rparr>]"
      and gs = "[''igw-1'']" and ids = "[''subnet-1'']"
      and sgs = "[\<lparr>GroupId_of = ''sg-0'', GroupName = ''default''\<rparr>,
          \<lparr>GroupId_of = ''sg-1'', GroupName = ''dev-sg''\<rparr>]"]
    small_vpc_describes [of "''vpc-1''"] small_vpc_step1
  by (simp add: route_table_calls_def is_main_def associations_of_def Let_def)

text \<open>
  C5. When \<open>describe_nat_gateways\<close> answers with the gateways \<open>gs\<close>, the events of the
  first step are that call followed by one block per gateway, in order: nothing for a
  gateway that is deleted or being deleted; otherwise \<open>delete_nat_gateway\<close>, then the wait
  for its deletion only when the deletion did not raise, then \<open>release_address\<close> for
  exactly the allocation ids recorded from the gateway's addresses only when the wait did
  not raise. When the listing gives no gateways nothing else is called in the step, and no
  later step of \<open>cleanup_specific_vpc\<close> calls \<open>release_address\<close>. So no Elastic IP is
  released before the wait for its gateway has completed.
\<close>

theorem release_after_nat_gateway_deleted:
  "(P h (EC2 (DescribeNatGateways v)) = NatGateways gs \<longrightarrow>
      (\<exists>bs. events (cleanup_nat_gateways P v h)
              = (EC2 (DescribeNatGateways v), NatGateways gs) # concat bs
            \<and> list_all2 nat_gateway_block gs bs))
   \<and> ((\<forall>gs. P h (EC2 (DescribeNatGateways v)) \<noteq> NatGateways gs) \<longrightarrow>
      calls (cleanup_nat_gateways P v h) = [EC2 (DescribeNatGateways v)])
   \<and> (\<exists>rest. events (cleanup_specific_vpc P v h) = events (cleanup_nat_gateways P v h) @ rest
            \<and> (\<forall>a. EC2 (ReleaseAddress a) \<notin> set (map fst rest)))"
proof -
  have "calls (cleanup_nat_gateways P v h) = [EC2 (DescribeNatGateways v)]"
    if "\<forall>gs. P h (EC2 (DescribeNatGateways v)) \<noteq> NatGateways gs"
    using that
    by (cases "P h (EC2 (DescribeNatGateways v))")
      (simp_all add: cleanup_nat_gateways_def calls_bnd result_bnd result_call_cases)
  then show ?thesis
    using cleanup_nat_gateways_blocks [of P h v gs] cleanup_specific_vpc_after_step1 [of P v h]
    by blast
qed

text \<open>
  C5 on the provider \<open>small_vpc\<close>, with one live gateway and one deleted; the block of the
  live gateway holds of the events in the order delete, wait, release, and of neither a
  release before the wait nor a release after a wait that raised.
\<close>

theorem release_after_nat_gateway_deleted_witness:
  "(\<exists>bs. events (cleanup_nat_gateways small_vpc ''vpc-1'' [])
          = (EC2 (DescribeNatGateways ''vpc-1''), NatGateways [\<lparr>NatGatewayId_of = ''nat-1'', State = ''available'',
          NatGatewayAddresses = Some [\<lparr>AllocationId = Some ''eipalloc-1''\<rparr>]\<rparr>, \<lparr>NatGatewayId_of = ''nat-0'', State = ''deleted'', NatGatewayAddresses = None\<rparr>]) # concat bs
        \<and> list_all2 nat_gateway_block [\<lparr>NatGatewayId_of = ''nat-1'', State = ''available'',
          NatGatewayAddresses = Some [\<lparr>AllocationId = Some ''eipalloc-1''\<rparr>]\<rparr>, \<lparr>NatGatewayId_of = ''nat-0'', State = ''deleted'', NatGatewayAddresses = None\<rparr>] bs)
   \<and> nat_gateway_block \<lparr>NatGatewayId_of = ''nat-1'', State = ''available'',
          NatGatewayAddresses = Some [\<lparr>AllocationId = Some ''eipalloc-1''\<rparr>]\<rparr>
        [(EC2 (DeleteNatGateway ''nat-1''), Done),
         (EC2 (Wait ''nat_gateway_deleted'' ''nat-1''), Done),
         (EC2 (ReleaseAddress ''eipalloc-1''), Done)]
   \<and> \<not> nat_gateway_block \<lparr>NatGatewayId_of = ''nat-1'', State = ''available'',
          NatGatewayAddresses = Some [\<lparr>AllocationId = Some ''eipalloc-1''\<rparr>]\<rparr>
        [(EC2 (DeleteNatGateway ''nat-1''), Done),
         (EC2 (ReleaseAddress ''eipalloc-1''), Done),
         (EC2 (Wait ''nat_gateway_deleted'' ''nat-1''), Done)]
   \<and> \<not> nat_gateway_block \<lparr>NatGatewayId_of = ''nat-1'', State = ''available'',
          NatGatewayAddresses = Some [\<lparr>AllocationId = Some ''eipalloc-1''\<rparr>]\<rparr>
        [(EC2 (DeleteNatGateway ''nat-1''), Done),
         (EC2 (Wait ''nat_gateway_deleted'' ''nat-1''), Raise unauthorized),
         (EC2 (ReleaseAddress ''eipalloc-1''), Done)]"
  using release_after_nat_gateway_deleted [where P = small_vpc and v = "''vpc-1''" and h = "[]"
      and gs = "[\<lparr>NatGatewayId_of = ''nat-1'', State = ''available'',
          NatGatewayAddresses = Some [\<lparr>AllocationId = Some ''eipalloc-1''\<rparr>]\<rparr>, \<lparr>NatGatewayId_of = ''nat-0'', State = ''deleted'', NatGatewayAddresses = None\<rparr>]"]
  by (simp add: nat_gateway_block_def is_Raise_def allocation_ids_of_def List.map_filter_def)

text \<open>
  C3. From any history at which the provider reports the database instance and the subnet
  group as not found, \<open>cleanup_existing_infrastructure\<close> and \<open>cleanup_complete_setup\<close>
  return normally and call neither \<open>delete_db_subnet_group\<close> nor \<open>delete_db_instance\<close>:
  the two not-found faults are handled. When the provider lists no VPC either,
  \<open>cleanup_complete_setup\<close> makes the four lookups and no other call. The history is
  arbitrary, so this holds in particular for a second invocation that starts where a
  successful cleanup ended.
\<close>

theorem teardown_of_absent_resources:
  "reports_absent P h d (case io of None \<Rightarrow> d | Some i \<Rightarrow> i) \<longrightarrow>
     result (cleanup_existing_infrastructure P (case io of None \<Rightarrow> d | Some i \<Rightarrow> i) h) = Inr ()
     \<and> list_all (\<lambda>c. \<not> is_rds_delete c)
         (calls (cleanup_existing_infrastructure P (case io of None \<Rightarrow> d | Some i \<Rightarrow> i) h))
     \<and> result (cleanup_complete_setup P d io h) = Inr ()
     \<and> list_all (\<lambda>c. \<not> is_rds_delete c) (calls (cleanup_complete_setup P d io h))
     \<and> (lists_no_vpcs P h (case io of None \<Rightarrow> d | Some i \<Rightarrow> i) \<longrightarrow>
          calls (cleanup_complete_setup P d io h) =
            [RDS (DescribeDBInstances d),
             RDS (DescribeDBSubnetGroups ((case io of None \<Rightarrow> d | Some i \<Rightarrow> i) @ ''-subnet-group'')),
             EC2 (DescribeVpcs [(''tag:Project'', case io of None \<Rightarrow> d | Some i \<Rightarrow> i),
                                (''tag:CreatedBy'', ''VPCInstanceCreator'')]),
             EC2 (DescribeVpcs [])])"
proof (intro impI)
  let ?i = "case io of None \<Rightarrow> d | Some i \<Rightarrow> i"
  let ?e1 = "(RDS (DescribeDBInstances d), Raise DBInstanceNotFoundFault)"
  let ?e2 = "(RDS (DescribeDBSubnetGroups (?i @ ''-subnet-group'')), Raise DBSubnetGroupNotFoundFault)"
  assume abs: "reports_absent P h d ?i"
  have a: "P h (RDS (DescribeDBSubnetGroups (?i @ ''-subnet-group''))) = Raise DBSubnetGroupNotFoundFault"
    using abs [unfolded reports_absent_def, rule_format, of "[]"] by simp
  have b: "P (h @ [?e1]) (RDS (DescribeDBSubnetGroups (?i @ ''-subnet-group'')))
      = Raise DBSubnetGroupNotFoundFault"
    using abs [unfolded reports_absent_def, rule_format, of "[?e1]"] by simp
  have n: "calls (cleanup_complete_setup P d io h) =
            [RDS (DescribeDBInstances d),
             RDS (DescribeDBSubnetGroups (?i @ ''-subnet-group'')),
             EC2 (DescribeVpcs [(''tag:Project'', ?i), (''tag:CreatedBy'', ''VPCInstanceCreator'')]),
             EC2 (DescribeVpcs [])]" if no: "lists_no_vpcs P h ?i"
  proof -
    have "lists_no_vpcs P (h @ [?e1, ?e2]) ?i"
      using no [unfolded lists_no_vpcs_def, rule_format, of "[?e1, ?e2] @ t" for t]
      by (simp add: lists_no_vpcs_def)
    then show ?thesis
      using cleanup_complete_setup_absent(3) [OF abs]
        cleanup_existing_infrastructure_absent(3) [where P = P and h = "h @ [?e1]" and i = ?i, OF b]
        vpc_searches_none [of P "h @ [?e1, ?e2]" ?i]
      by simp
  qed
  show "result (cleanup_existing_infrastructure P ?i h) = Inr ()
     \<and> list_all (\<lambda>c. \<not> is_rds_delete c) (calls (cleanup_existing_infrastructure P ?i h))
     \<and> result (cleanup_complete_setup P d io h) = Inr ()
     \<and> list_all (\<lambda>c. \<not> is_rds_delete c) (calls (cleanup_complete_setup P d io h))
     \<and> (lists_no_vpcs P h ?i \<longrightarrow>
          calls (cleanup_complete_setup P d io h) =
            [RDS (DescribeDBInstances d),
             RDS (DescribeDBSubnetGroups (?i @ ''-subnet-group'')),
             EC2 (DescribeVpcs [(''tag:Project'', ?i), (''tag:CreatedBy'', ''VPCInstanceCreator'')]),
             EC2 (DescribeVpcs [])])"
    using cleanup_existing_infrastructure_absent(1,2) [where P = P and h = h and i = ?i, OF a]
      cleanup_complete_setup_absent(1,2) [OF abs] n
    by blast
qed

text \<open>
  C3 for a second invocation: on the provider \<open>database_only\<close> the first
  \<open>cleanup_complete_setup\<close> deletes the instance and the subnet group; started from the
  history it leaves, the second one returns normally after the four lookups alone.
\<close>

theorem teardown_of_absent_resources_witness:
  "(let h1 = events (cleanup_complete_setup database_only ''db'' (Some ''dev'') [])
    in RDS (DeleteDBInstance ''db'' True) \<in> set (map fst h1)
     \<and> RDS (DeleteDBSubnetGroup ''dev-subnet-group'') \<in> set (map fst h1)
     \<and> reports_absent database_only h1 ''db'' ''dev''
     \<and> lists_no_vpcs database_only h1 ''dev''
     \<and> result (cleanup_complete_setup database_only ''db'' (Some ''dev'') h1) = Inr ()
     \<and> result (cleanup_existing_infrastructure database_only ''dev'' h1) = Inr ()
     \<and> calls (cleanup_complete_setup database_only ''db'' (Some ''dev'') h1) =
          [RDS (DescribeDBInstances ''db''),
           RDS (DescribeDBSubnetGroups ''dev-subnet-group''),
           EC2 (DescribeVpcs [(''tag:Project'', ''dev''),
                              (''tag:CreatedBy'', ''VPCInstanceCreator'')]),
           EC2 (DescribeVpcs [])])"
proof -
  have a: "reports_absent database_only [(RDS (DescribeDBInstances ''db''),
        DBInstances [\<lparr>DBInstanceStatus = ''available'',
                      Endpoint = Some (''db.example'', 5432), DBName = None\<rparr>]),
       (RDS (DeleteDBInstance ''db'' True), Done),
       (RDS (WaitDBInstanceDeleted ''db'' 30 40), Done),
       (RDS (DescribeDBSubnetGroups ''dev-subnet-group''), DBSubnetGroups [''dev-subnet-group'']),
       (RDS (DeleteDBSubnetGroup ''dev-subnet-group''), Done),
       (EC2 (DescribeVpcs [(''tag:Project'', ''dev''), (''tag:CreatedBy'', ''VPCInstanceCreator'')]),
        Vpcs []),
       (EC2 (DescribeVpcs []), Vpcs [])] ''db'' ''dev''"
    by (simp add: reports_absent_def database_only_def database_only_rds_def)
  have n: "lists_no_vpcs database_only [(RDS (DescribeDBInstances ''db''),
        DBInstances [\<lparr>DBInstanceStatus = ''available'',
                      Endpoint = Some (''db.example'', 5432), DBName = None\<rparr>]),
       (RDS (DeleteDBInstance ''db'' True), Done),
       (RDS (WaitDBInstanceDeleted ''db'' 30 40), Done),
       (RDS (DescribeDBSubnetGroups ''dev-subnet-group''), DBSubnetGroups [''dev-subnet-group'']),
       (RDS (DeleteDBSubnetGroup ''dev-subnet-group''), Done),
       (EC2 (DescribeVpcs [(''tag:Project'', ''dev''), (''tag:CreatedBy'', ''VPCInstanceCreator'')]),
        Vpcs []),
       (EC2 (DescribeVpcs []), Vpcs [])] ''dev''"
    by (simp add: lists_no_vpcs_def database_only_def)
  show ?thesis
    using teardown_of_absent_resources [where P = database_only and d = "''db''"
        and io = "Some ''dev''" and h = "[(RDS (DescribeDBInstances ''db''),
        DBInstances [\<lparr>DBInstanceStatus = ''available'',
                      Endpoint = Some (''db.example'', 5432), DBName = None\<rparr>]),
       (RDS (DeleteDBInstance ''db'' True), Done),
       (RDS (WaitDBInstanceDeleted ''db'' 30 40), Done),
       (RDS (DescribeDBSubnetGroups ''dev-subnet-group''), DBSubnetGroups [''dev-subnet-group'']),
       (RDS (DeleteDBSubnetGroup ''dev-subnet-group''), Done),
       (EC2 (DescribeVpcs [(''tag:Project'', ''dev''), (''tag:CreatedBy'', ''VPCInstanceCreator'')]),
        Vpcs []),
       (EC2 (DescribeVpcs []), Vpcs [])]"] a n
    by (simp add: database_only_first_run Let_def)
qed

text \<open>
  C2, as the code has it. In every execution of \<open>create_complete_rds_setup\<close> in which
  \<open>get_vpc_infrastructure_info\<close> returns \<open>None\<close>, the call raises and no request to create
  a database instance is made. When \<open>create_complete_infrastructure\<close> returns its
  dictionary, the exception is the \<open>KeyError\<close> of the key \<open>igw_id\<close>, which that
  dictionary never has (it has \<open>internet_gateway_id\<close>); when
  \<open>create_complete_infrastructure\<close> raises, the exception is the one it raised.
\<close>

theorem fresh_setup_raises_before_rds:
  "result (get_vpc_infrastructure_info P (case io of None \<Rightarrow> db | Some i \<Rightarrow> i) h) = Inr None \<longrightarrow>
     (let i = (case io of None \<Rightarrow> db | Some i \<Rightarrow> i);
          h1 = h @ events (get_vpc_infrastructure_info P i h);
          infrastructure = result (create_complete_infrastructure P i h1)
      in (\<exists>e. result (create_complete_rds_setup P db io h) = Inl e
            \<and> (\<forall>raw. infrastructure = Inr raw \<longrightarrow>
                  e = KeyError ''igw_id'' \<and> map_of raw ''igw_id'' = None
                  \<and> map_of raw ''internet_gateway_id'' \<noteq> None)
            \<and> (\<forall>e'. infrastructure = Inl e' \<longrightarrow> e = e'))
         \<and> list_all (\<lambda>c. \<not> is_create_db_instance c)
              (calls (create_complete_rds_setup P db io h)))"
proof (intro impI)
  let ?i = "case io of None \<Rightarrow> db | Some i \<Rightarrow> i"
  let ?h1 = "h @ events (get_vpc_infrastructure_info P ?i h)"
  assume none: "result (get_vpc_infrastructure_info P ?i h) = Inr None"
  obtain e where e: "result (bnd (create_complete_infrastructure P ?i) (convert_vpc_info ?i) ?h1) = Inl e"
    and raw: "\<forall>raw. result (create_complete_infrastructure P ?i ?h1) = Inr raw \<longrightarrow>
          e = KeyError ''igw_id'' \<and> map_of raw ''igw_id'' = None
          \<and> map_of raw ''internet_gateway_id'' \<noteq> None"
    and exn: "\<forall>e'. result (create_complete_infrastructure P ?i ?h1) = Inl e' \<longrightarrow> e = e'"
    using fresh_infrastructure_raises [of P ?i ?h1] by blast
  have r: "result (create_complete_rds_setup P db io h) = Inl e"
    using create_complete_rds_setup_fresh(1) [OF none e] .
  have "list_all (\<lambda>c. \<not> is_create_db_instance c) (calls (get_vpc_infrastructure_info P ?i h))"
    using only_calls_get_vpc_infrastructure_info [of P ?i] by (simp add: only_calls_def)
  moreover have "list_all (\<lambda>c. \<not> is_create_db_instance c)
      (calls (create_complete_infrastructure P ?i ?h1))"
    using only_calls_create_complete_infrastructure
      [of "\<lambda>c. \<not> is_create_db_instance c" P ?i]
    by (simp add: only_calls_def)
  ultimately have c: "list_all (\<lambda>c. \<not> is_create_db_instance c)
      (calls (create_complete_rds_setup P db io h))"
    by (simp add: create_complete_rds_setup_fresh(2) [OF none])
  show "let i = ?i; h1 = h @ events (get_vpc_infrastructure_info P i h);
          infrastructure = result (create_complete_infrastructure P i h1)
      in (\<exists>e. result (create_complete_rds_setup P db io h) = Inl e
            \<and> (\<forall>raw. infrastructure = Inr raw \<longrightarrow>
                  e = KeyError ''igw_id'' \<and> map_of raw ''igw_id'' = None
                  \<and> map_of raw ''internet_gateway_id'' \<noteq> None)
            \<and> (\<forall>e'. infrastructure = Inl e' \<longrightarrow> e = e'))
         \<and> list_all (\<lambda>c. \<not> is_create_db_instance c)
              (calls (create_complete_rds_setup P db io h))"
    unfolding Let_def using r raw exn c by blast
qed

text \<open>
  C2 on the provider \<open>fresh_account\<close>, where no VPC is found and every creation
  succeeds: the infrastructure is created and the conversion raises the \<open>KeyError\<close>.
\<close>

theorem fresh_setup_raises_before_rds_witness:
  "result (get_vpc_infrastructure_info fresh_account ''dev'' []) = Inr None
   \<and> result (create_complete_rds_setup fresh_account ''dev'' None [])
       = Inl (KeyError ''igw_id'')
   \<and> list_all (\<lambda>c. \<not> is_create_db_instance c)
        (calls (create_complete_rds_setup fresh_account ''dev'' None []))"
  using fresh_setup_raises_before_rds [where P = fresh_account and db = "''dev''"
      and io = None and h = "[]"]
    fresh_account_info fresh_account_infrastructure
  by (auto simp: Let_def)

text \<open>
  C2 as stated fails where the creation of the infrastructure itself raises: on the
  provider \<open>vpc_limit_reached\<close> no VPC is found, \<open>create_vpc\<close> is refused, and the call
  raises that \<open>ClientError\<close>, not a \<open>KeyError\<close>.
\<close>

theorem fresh_setup_other_exception:
  "result (get_vpc_infrastructure_info vpc_limit_reached ''dev'' []) = Inr None
   \<and> result (create_complete_rds_setup vpc_limit_reached ''dev'' None [])
       = Inl (ClientError ''VpcLimitExceeded'')
   \<and> result (create_complete_rds_setup vpc_limit_reached ''dev'' None [])
       \<noteq> Inl (KeyError ''igw_id'')"
proof -
  have g: "result (get_vpc_infrastructure_info vpc_limit_reached ''dev'' []) = Inr None"
    "events (get_vpc_infrastructure_info vpc_limit_reached ''dev'' [])
       = [(EC2 (DescribeVpcs [(''tag:Project'', ''dev''),
            (''tag:CreatedBy'', ''VPCInstanceCreator'')]), Vpcs [])]"
    by (simp_all add: get_vpc_infrastructure_info_def result_bnd result_catch events_bnd
        events_catch result_call_ok vpcs_of_def)
  have v: "result (create_vpc vpc_limit_reached ''10.0.0.0/16'' ''dev'' h)
      = Inl (ClientError ''VpcLimitExceeded'')" for h
    by (simp add: create_vpc_def log_reraise_result result_bnd result_call_Raise)
  have "result (create_complete_rds_setup vpc_limit_reached ''dev'' None [])
       = Inl (ClientError ''VpcLimitExceeded'')"
    by (simp add: create_complete_rds_setup_def create_complete_infrastructure_def Let_def
        result_bnd g v)
  with g(1) show ?thesis by simp
qed

end
